theory Spec2Isabelle
  imports Main "HOL-Library.Sublist"
begin

section \<open>ShoreSquad weather integration (src/js/weather.js)\<close>

text \<open>
  The development embeds the \<^verbatim>\<open>WeatherAPI\<close> object and \<^verbatim>\<open>initWeather\<close> of
  \<^verbatim>\<open>src/js/weather.js\<close>. JavaScript strings are modelled as \<^typ>\<open>string\<close>; a character
  outside ASCII is kept as its UTF-8 bytes. The substring tests of the source only ever
  search for ASCII keys, and an ASCII byte never occurs inside a multi-byte UTF-8
  sequence, so the encoding does not change which keys are found.
\<close>

subsection \<open>JavaScript values and strings\<close>

text \<open>
  The values the source stores in a forecast record: \<^verbatim>\<open>undefined\<close>, a number (an integer
  or \<^verbatim>\<open>NaN\<close>), a string, or a member that an object literal inherits from
  \<^verbatim>\<open>Object.prototype\<close> (a function or the prototype object itself), kept by its name.
\<close>

datatype jsval = Undefined | Num int | NaN | Str string | ProtoMember string

fun truthy :: "jsval \<Rightarrow> bool" where
  "truthy Undefined = False"
| "truthy (Num n) = (n \<noteq> 0)"
| "truthy NaN = False"
| "truthy (Str s) = (s \<noteq> [])"
| "truthy (ProtoMember k) = True"

text \<open>
  \<^verbatim>\<open>String.prototype.toLowerCase\<close> on the ASCII letters; other bytes are left as they
  are. (Full Unicode lower-casing also maps U+0130 and U+212A to sequences that contain
  an ASCII letter; such condition texts are outside this model.)
\<close>

definition lower_char :: "char \<Rightarrow> char" where
  "lower_char c = (let n = (of_char c :: nat) in if 65 \<le> n \<and> n \<le> 90 then char_of (n + 32) else c)"

definition toLowerCase :: "string \<Rightarrow> string" where
  "toLowerCase s = map lower_char s"

text \<open>\<^verbatim>\<open>String.prototype.startsWith\<close> and \<^verbatim>\<open>String.prototype.includes\<close>.\<close>

fun startsWith :: "string \<Rightarrow> string \<Rightarrow> bool" where
  "startsWith s [] = True"
| "startsWith [] (k # ks) = False"
| "startsWith (c # cs) (k # ks) = (c = k \<and> startsWith cs ks)"

fun str_includes :: "string \<Rightarrow> string \<Rightarrow> bool" where
  "str_includes [] k = (k = [])"
| "str_includes (c # cs) k = (startsWith (c # cs) k \<or> str_includes cs k)"

subsection \<open>The emoji table and \<^verbatim>\<open>getWeatherEmoji\<close>\<close>

text \<open>The pictographs of the table, as UTF-8.\<close>

definition emoji_sun :: string where
  "emoji_sun = [CHR 0xE2, CHR 0x98, CHR 0x80, CHR 0xEF, CHR 0xB8, CHR 0x8F]"

definition emoji_partly :: string where
  "emoji_partly = [CHR 0xE2, CHR 0x9B, CHR 0x85]"

definition emoji_cloud :: string where
  "emoji_cloud = [CHR 0xE2, CHR 0x98, CHR 0x81, CHR 0xEF, CHR 0xB8, CHR 0x8F]"

definition emoji_rain :: string where
  "emoji_rain = [CHR 0xF0, CHR 0x9F, CHR 0x8C, CHR 0xA7, CHR 0xEF, CHR 0xB8, CHR 0x8F]"

definition emoji_storm :: string where
  "emoji_storm = [CHR 0xE2, CHR 0x9B, CHR 0x88, CHR 0xEF, CHR 0xB8, CHR 0x8F]"

definition emoji_wind :: string where
  "emoji_wind = [CHR 0xF0, CHR 0x9F, CHR 0x92, CHR 0xA8]"

definition emoji_fog :: string where
  "emoji_fog = [CHR 0xF0, CHR 0x9F, CHR 0x8C, CHR 0xAB, CHR 0xEF, CHR 0xB8, CHR 0x8F]"

definition emoji_default :: string where
  "emoji_default = [CHR 0xF0, CHR 0x9F, CHR 0x8C, CHR 0xA4, CHR 0xEF, CHR 0xB8, CHR 0x8F]"

text \<open>
  \<^verbatim>\<open>WeatherAPI.weatherEmoji\<close>, in declaration order: \<^verbatim>\<open>Object.entries\<close> enumerates the
  string keys of an object literal in the order in which they were written.
\<close>

definition weatherEmoji :: "(string \<times> string) list" where
  "weatherEmoji =
    [(''Sunny'', emoji_sun),
     (''Partly cloudy'', emoji_partly),
     (''Cloudy'', emoji_cloud),
     (''Overcast'', emoji_cloud),
     (''Light rain'', emoji_rain),
     (''Moderate rain'', emoji_rain),
     (''Heavy rain'', emoji_storm),
     (''Thundery showers'', emoji_storm),
     (''Thunderstorm'', emoji_storm),
     (''Windy'', emoji_wind),
     (''Fair'', emoji_sun),
     (''Hazy'', emoji_fog),
     (''Mist'', emoji_fog),
     (''Fog'', emoji_fog)]"

text \<open>
  The table is an ordinary object literal, so a property read that finds no own key goes
  on to \<^verbatim>\<open>Object.prototype\<close>. These are its property names (ECMAScript 2023, 20.1.3 and
  B.2.2); each is a function, or for \<^verbatim>\<open>__proto__\<close> the prototype object.
\<close>

definition objectPrototypeKeys :: "string list" where
  "objectPrototypeKeys =
    [''constructor'', ''hasOwnProperty'', ''isPrototypeOf'', ''propertyIsEnumerable'',
     ''toLocaleString'', ''toString'', ''valueOf'', ''__proto__'',
     ''__defineGetter__'', ''__defineSetter__'', ''__lookupGetter__'', ''__lookupSetter__'']"

text \<open>The property read \<^verbatim>\<open>this.weatherEmoji[condition]\<close>.\<close>

definition weatherEmoji_get :: "string \<Rightarrow> jsval" where
  "weatherEmoji_get k =
    (case map_of weatherEmoji k of
       Some e \<Rightarrow> Str e
     | None \<Rightarrow> if k \<in> set objectPrototypeKeys then ProtoMember k else Undefined)"

text \<open>The loop over \<^verbatim>\<open>Object.entries\<close>: the emoji of the first entry whose key matches.\<close>

fun partialMatch :: "string \<Rightarrow> (string \<times> string) list \<Rightarrow> string option" where
  "partialMatch conditionLower [] = None"
| "partialMatch conditionLower ((key, emoji) # entries) =
    (if str_includes conditionLower (toLowerCase key) then Some emoji
     else partialMatch conditionLower entries)"

text \<open>
  \<^verbatim>\<open>getWeatherEmoji(condition)\<close>; the argument is \<^verbatim>\<open>day.text\<close>, a string or
  \<^verbatim>\<open>undefined\<close> (\<^term>\<open>None\<close>).
\<close>

definition getWeatherEmoji :: "string option \<Rightarrow> jsval" where
  "getWeatherEmoji condition =
    (case condition of
       None \<Rightarrow> Str emoji_default
     | Some c \<Rightarrow>
        if c = [] then Str emoji_default
        else if truthy (weatherEmoji_get c) then weatherEmoji_get c
        else (case partialMatch (toLowerCase c) weatherEmoji of
                Some emoji \<Rightarrow> Str emoji
              | None \<Rightarrow> Str emoji_default))"

subsection \<open>Numbers and strings of the language\<close>

text \<open>\<^verbatim>\<open>Number.prototype.toString\<close> on an integer, in decimal.\<close>

definition digit_char :: "nat \<Rightarrow> char" where
  "digit_char d = ''0123456789'' ! d"

fun nat_digits :: "nat \<Rightarrow> string" where
  "nat_digits n = (if n < 10 then [digit_char n] else nat_digits (n div 10) @ [digit_char (n mod 10)])"

declare nat_digits.simps [simp del]

definition int_toString :: "int \<Rightarrow> string" where
  "int_toString i = (if i < 0 then CHR ''-'' # nat_digits (nat (- i)) else nat_digits (nat i))"

text \<open>A number that may be \<^verbatim>\<open>NaN\<close> (\<^term>\<open>None\<close>), and its \<^verbatim>\<open>toString()\<close>.\<close>

type_synonym number = "int option"

definition number_toString :: "number \<Rightarrow> string" where
  "number_toString x = (case x of None \<Rightarrow> ''NaN'' | Some i \<Rightarrow> int_toString i)"

text \<open>\<^verbatim>\<open>String.prototype.padStart(n, c)\<close> with a one-character filler.\<close>

definition padStart :: "string \<Rightarrow> nat \<Rightarrow> char \<Rightarrow> string" where
  "padStart s n c = replicate (n - length s) c @ s"

text \<open>
  \<^verbatim>\<open>parseInt(s)\<close> with no radix (ECMAScript 19.2.5): leading white space is skipped, a
  sign is read, a \<^verbatim>\<open>0x\<close> prefix selects radix 16, and the longest run of digits is
  converted; no digit gives \<^verbatim>\<open>NaN\<close>. The result is kept as an exact integer (the
  rounding to a double of a run of more than 15 digits is not modelled), and only the
  ASCII white space characters are skipped.
\<close>

definition is_space :: "char \<Rightarrow> bool" where
  "is_space c = (c \<in> set [CHR 0x09, CHR 0x0A, CHR 0x0B, CHR 0x0C, CHR 0x0D, CHR 0x20])"

definition digit_value :: "nat \<Rightarrow> char \<Rightarrow> nat option" where
  "digit_value radix c =
    (let n = (of_char c :: nat);
         v = (if 48 \<le> n \<and> n \<le> 57 then Some (n - 48)
              else if 97 \<le> n \<and> n \<le> 122 then Some (n - 87)
              else if 65 \<le> n \<and> n \<le> 90 then Some (n - 55)
              else None)
     in case v of None \<Rightarrow> None | Some d \<Rightarrow> if d < radix then Some d else None)"

fun read_digits :: "nat \<Rightarrow> string \<Rightarrow> nat option \<Rightarrow> nat option" where
  "read_digits radix [] acc = acc"
| "read_digits radix (c # cs) acc =
    (case digit_value radix c of
       None \<Rightarrow> acc
     | Some d \<Rightarrow> read_digits radix cs (Some ((case acc of None \<Rightarrow> 0 | Some a \<Rightarrow> a) * radix + d)))"

definition parseInt :: "string \<Rightarrow> number" where
  "parseInt inputString =
    (let s = dropWhile is_space inputString;
         sgn = (if startsWith s ''-'' then - 1 else 1 :: int);
         s = (if startsWith s ''+'' \<or> startsWith s ''-'' then tl s else s);
         hex = (startsWith s ''0x'' \<or> startsWith s ''0X'');
         z = read_digits (if hex then 16 else 10) (if hex then drop 2 s else s) None
     in case z of None \<Rightarrow> None | Some m \<Rightarrow> Some (sgn * int m))"

subsection \<open>Time values and the \<^verbatim>\<open>Date\<close> object\<close>

text \<open>
  The day and calendar arithmetic of ECMAScript 21.4.1 on integers; \<^term>\<open>(div)\<close> and
  \<^term>\<open>(mod)\<close> on \<^typ>\<open>int\<close> are the floor and the modulo of the standard.
\<close>

definition msPerDay :: int where
  "msPerDay = 86400000"

definition Day :: "int \<Rightarrow> int" where
  "Day t = t div msPerDay"

definition TimeWithinDay :: "int \<Rightarrow> int" where
  "TimeWithinDay t = t mod msPerDay"

definition InLeapYear_of :: "int \<Rightarrow> bool" where
  "InLeapYear_of y = (if y mod 4 \<noteq> 0 then False else if y mod 100 \<noteq> 0 then True else y mod 400 = 0)"

definition DayFromYear :: "int \<Rightarrow> int" where
  "DayFromYear y = 365 * (y - 1970) + (y - 1969) div 4 - (y - 1901) div 100 + (y - 1601) div 400"

text \<open>
  \<^verbatim>\<open>YearFromTime\<close> is the largest year that starts at or before the day. The search runs
  downwards from a year that starts after it.
\<close>

function year_down :: "int \<Rightarrow> int \<Rightarrow> int" where
  "year_down y d = (if DayFromYear y \<le> d then y else year_down (y - 1) d)"
  by pat_completeness auto
termination
proof (relation "measure (\<lambda>(y, d). nat (DayFromYear y - d))")
  show "wf (measure (\<lambda>(y, d). nat (DayFromYear y - d)))" by simp
next
  fix y d :: int
  assume "\<not> DayFromYear y \<le> d"
  moreover have "DayFromYear (y - 1) < DayFromYear y"
  proof -
    have a: "(y - 1 - 1969) div 4 \<le> (y - 1969) div 4"
      by (rule zdiv_mono1) simp_all
    have c: "(y - 1 - 1601) div 400 \<le> (y - 1601) div 400"
      by (rule zdiv_mono1) simp_all
    have "(y - 1901) div 100 \<le> (y - 1 - 1901 + 100) div 100"
      by (rule zdiv_mono1) simp_all
    then have b: "(y - 1901) div 100 \<le> (y - 1 - 1901) div 100 + 1"
      by simp
    have "(y - 1 - 1969) div 4 - (y - 1 - 1901) div 100 + (y - 1 - 1601) div 400
        < 365 + (y - 1969) div 4 - (y - 1901) div 100 + (y - 1601) div 400"
      using a b c by linarith
    then show ?thesis
      unfolding DayFromYear_def by (simp add: algebra_simps)
  qed
  ultimately show "((y - 1, d), (y, d)) \<in> measure (\<lambda>(y, d). nat (DayFromYear y - d))"
    by simp
qed

declare year_down.simps [simp del]

definition YearFromDay :: "int \<Rightarrow> int" where
  "YearFromDay d = year_down (1971 + (if d < 0 then 0 else d div 365)) d"

definition YearFromTime :: "int \<Rightarrow> int" where
  "YearFromTime t = YearFromDay (Day t)"

definition InLeapYear :: "int \<Rightarrow> bool" where
  "InLeapYear t = InLeapYear_of (YearFromTime t)"

definition DayWithinYear :: "int \<Rightarrow> int" where
  "DayWithinYear t = Day t - DayFromYear (YearFromTime t)"

text \<open>The first day (within its year) of month \<open>m\<close>, \<open>0 \<le> m \<le> 11\<close>.\<close>

definition month_start :: "bool \<Rightarrow> int \<Rightarrow> int" where
  "month_start leap m =
    (let l = (if leap then 1 else 0) in
     if m = 0 then 0 else if m = 1 then 31 else if m = 2 then 59 + l
     else if m = 3 then 90 + l else if m = 4 then 120 + l else if m = 5 then 151 + l
     else if m = 6 then 181 + l else if m = 7 then 212 + l else if m = 8 then 243 + l
     else if m = 9 then 273 + l else if m = 10 then 304 + l else 334 + l)"

definition MonthFromTime :: "int \<Rightarrow> int" where
  "MonthFromTime t =
    (let d = DayWithinYear t; l = (if InLeapYear t then 1 else 0) in
     if d < 31 then 0 else if d < 59 + l then 1 else if d < 90 + l then 2
     else if d < 120 + l then 3 else if d < 151 + l then 4 else if d < 181 + l then 5
     else if d < 212 + l then 6 else if d < 243 + l then 7 else if d < 273 + l then 8
     else if d < 304 + l then 9 else if d < 334 + l then 10 else 11)"

definition DateFromTime :: "int \<Rightarrow> int" where
  "DateFromTime t = DayWithinYear t - month_start (InLeapYear t) (MonthFromTime t) + 1"

definition WeekDay :: "int \<Rightarrow> int" where
  "WeekDay t = (Day t + 4) mod 7"

definition MakeTime :: "int \<Rightarrow> int \<Rightarrow> int \<Rightarrow> int \<Rightarrow> int" where
  "MakeTime h m s ms = h * 3600000 + m * 60000 + s * 1000 + ms"

definition MakeDay :: "int \<Rightarrow> int \<Rightarrow> int \<Rightarrow> int" where
  "MakeDay year month dt =
    (let ym = year + month div 12; mn = month mod 12
     in DayFromYear ym + month_start (InLeapYear_of ym) mn + dt - 1)"

definition MakeDate :: "int \<Rightarrow> int \<Rightarrow> int" where
  "MakeDate day time = day * msPerDay + time"

definition TimeClip :: "int \<Rightarrow> number" where
  "TimeClip t = (if \<bar>t\<bar> > 8640000000000000 then None else Some t)"

text \<open>
  What the host contributes to \<^verbatim>\<open>Date\<close>. \<open>LocalTZA t isUTC\<close> is the offset of local
  time from UTC in milliseconds at the time \<open>t\<close>, which is an instant when \<open>isUTC\<close> holds
  and a local time otherwise (ECMAScript 21.4.1.7 to 21.4.1.9); it may change with \<open>t\<close>,
  as it does on a host with daylight saving. \<open>legacy_parse\<close> is the parser that
  \<^verbatim>\<open>Date.parse\<close> falls back to for a string outside the ISO forms modelled below
  (ECMAScript leaves that fallback to the implementation).
\<close>

record env =
  LocalTZA :: "int \<Rightarrow> bool \<Rightarrow> int"
  legacy_parse :: "string \<Rightarrow> number"

definition LocalTime :: "env \<Rightarrow> int \<Rightarrow> int" where
  "LocalTime e t = t + LocalTZA e t True"

definition UTC :: "env \<Rightarrow> int \<Rightarrow> int" where
  "UTC e t = t - LocalTZA e t False"

text \<open>
  \<^verbatim>\<open>Date.parse\<close> on the forms \<^verbatim>\<open>YYYY-MM-DD\<close> (read as UTC) and
  \<^verbatim>\<open>YYYY-MM-DDTHH:mm:ss\<close> followed by nothing (local time), by \<^verbatim>\<open>Z\<close>, or by
  \<^verbatim>\<open>+HH:mm\<close> or \<^verbatim>\<open>-HH:mm\<close>, with every element in range (ECMAScript 21.4.1.32).
  Any other string goes to \<^term>\<open>legacy_parse\<close>.
\<close>

definition decimal :: "string \<Rightarrow> int option" where
  "decimal s =
    (if s \<noteq> [] \<and> list_all (\<lambda>c. digit_value 10 c \<noteq> None) s
     then map_option int (read_digits 10 s None) else None)"

definition days_in_month :: "bool \<Rightarrow> int \<Rightarrow> int" where
  "days_in_month leap m =
    (if m = 2 then (if leap then 29 else 28)
     else if m = 4 \<or> m = 6 \<or> m = 9 \<or> m = 11 then 30 else 31)"

definition iso_date :: "string \<Rightarrow> int option" where
  "iso_date s =
    (if length s = 10 \<and> s ! 4 = CHR ''-'' \<and> s ! 7 = CHR ''-'' then
       (case (decimal (take 4 s), decimal (take 2 (drop 5 s)), decimal (drop 8 s)) of
          (Some y, Some m, Some d) \<Rightarrow>
            if 1 \<le> m \<and> m \<le> 12 \<and> 1 \<le> d \<and> d \<le> days_in_month (InLeapYear_of y) m
            then Some (MakeDay y (m - 1) d) else None
        | _ \<Rightarrow> None)
     else None)"

definition iso_hm :: "string \<Rightarrow> (int \<times> int) option" where
  "iso_hm s =
    (if length s = 5 \<and> s ! 2 = CHR '':'' then
       (case (decimal (take 2 s), decimal (drop 3 s)) of
          (Some h, Some m) \<Rightarrow> if h \<le> 23 \<and> m \<le> 59 then Some (h, m) else None
        | _ \<Rightarrow> None)
     else None)"

definition iso_time :: "string \<Rightarrow> int option" where
  "iso_time s =
    (if length s = 8 \<and> s ! 5 = CHR '':'' then
       (case (iso_hm (take 5 s), decimal (drop 6 s)) of
          (Some (h, m), Some sec) \<Rightarrow> if sec \<le> 59 then Some (MakeTime h m sec 0) else None
        | _ \<Rightarrow> None)
     else None)"

text \<open>
  The instant of the date and time \<open>t\<close> that is followed by the offset \<open>s\<close>: with no
  offset \<open>t\<close> is a local time of the host.
\<close>

definition iso_instant :: "env \<Rightarrow> int \<Rightarrow> string \<Rightarrow> int option" where
  "iso_instant e t s =
    (if s = [] then Some (UTC e t)
     else if s = ''Z'' then Some t
     else if startsWith s ''+'' \<or> startsWith s ''-'' then
       (case iso_hm (tl s) of
          Some (h, m) \<Rightarrow> Some (t - (if startsWith s ''-'' then - 1 else 1) * MakeTime h m 0 0)
        | None \<Rightarrow> None)
     else None)"

definition Date_parse :: "env \<Rightarrow> string \<Rightarrow> number" where
  "Date_parse e s =
    (case iso_date (take 10 s) of
       None \<Rightarrow> legacy_parse e s
     | Some day \<Rightarrow>
        if length s = 10 then Some (MakeDate day 0)
        else if s ! 10 = CHR ''T'' then
          (case iso_time (take 8 (drop 11 s)) of
             None \<Rightarrow> legacy_parse e s
           | Some tm \<Rightarrow>
              (case iso_instant e (MakeDate day tm) (drop 19 s) of
                 None \<Rightarrow> legacy_parse e s
               | Some t \<Rightarrow> Some t))
        else legacy_parse e s)"

text \<open>
  \<^verbatim>\<open>Date\<close> objects are mutable, so they live in a store: the object at address \<open>a\<close>
  is the \<open>a\<close>-th cell, and a cell holds the object's time value (\<^term>\<open>None\<close> for an
  invalid date). \<^verbatim>\<open>new Date(v)\<close> allocates the next cell.
\<close>

type_synonym heap = "number list"

definition Date_value :: "env \<Rightarrow> string option \<Rightarrow> number" where
  "Date_value e v =
    (case v of
       None \<Rightarrow> None
     | Some s \<Rightarrow> (case Date_parse e s of None \<Rightarrow> None | Some t \<Rightarrow> TimeClip t))"

definition newDate :: "env \<Rightarrow> string option \<Rightarrow> heap \<Rightarrow> nat \<times> heap" where
  "newDate e v h = (length h, h @ [Date_value e v])"

definition getDate :: "env \<Rightarrow> heap \<Rightarrow> nat \<Rightarrow> number" where
  "getDate e h a = map_option (\<lambda>t. DateFromTime (LocalTime e t)) (h ! a)"

definition getMonth :: "env \<Rightarrow> heap \<Rightarrow> nat \<Rightarrow> number" where
  "getMonth e h a = map_option (\<lambda>t. MonthFromTime (LocalTime e t)) (h ! a)"

definition getDay :: "env \<Rightarrow> heap \<Rightarrow> nat \<Rightarrow> number" where
  "getDay e h a = map_option (\<lambda>t. WeekDay (LocalTime e t)) (h ! a)"

text \<open>\<^verbatim>\<open>Date.prototype.setDate\<close> (ECMAScript 21.4.4.20) writes the cell in place.\<close>

definition setDate :: "env \<Rightarrow> nat \<Rightarrow> number \<Rightarrow> heap \<Rightarrow> heap" where
  "setDate e a dt h =
    h[a := (case h ! a of
              None \<Rightarrow> None
            | Some t0 \<Rightarrow>
               (case dt of
                  None \<Rightarrow> None
                | Some d \<Rightarrow>
                   (let t = LocalTime e t0;
                        newDate = MakeDate (MakeDay (YearFromTime t) (MonthFromTime t) d) (TimeWithinDay t)
                    in TimeClip (UTC e newDate))))]"

subsection \<open>\<^verbatim>\<open>getDayName\<close> and \<^verbatim>\<open>formatDate\<close>\<close>

definition days :: "string list" where
  "days = [''Sun'', ''Mon'', ''Tue'', ''Wed'', ''Thu'', ''Fri'', ''Sat'']"

text \<open>An index that is \<^verbatim>\<open>NaN\<close> or outside the array reads \<^verbatim>\<open>undefined\<close> (\<^term>\<open>None\<close>).\<close>

definition getDayName :: "env \<Rightarrow> heap \<Rightarrow> nat \<Rightarrow> string option" where
  "getDayName e h date =
    (case getDay e h date of
       None \<Rightarrow> None
     | Some n \<Rightarrow> if 0 \<le> n \<and> n < int (length days) then Some (days ! nat n) else None)"

definition formatDate :: "env \<Rightarrow> heap \<Rightarrow> nat \<Rightarrow> string" where
  "formatDate e h date =
    (let d = padStart (number_toString (getDate e h date)) 2 CHR ''0'';
         m = padStart (number_toString (map_option (\<lambda>m. m + 1) (getMonth e h date))) 2 CHR ''0''
     in d @ ''/'' @ m)"

subsection \<open>The raw response and \<^verbatim>\<open>parseForecast\<close>\<close>

text \<open>
  The response body after \<^verbatim>\<open>response.json()\<close>: objects of the shape the source reads,
  in which every property may be missing (\<^term>\<open>None\<close>, read as \<^verbatim>\<open>undefined\<close>) and
  a property that is there has the type of the wire format.
\<close>

record wind_obj =
  wind_direction :: "string option"
  wind_speed :: "string option"

record day_entry =
  day_text :: "string option"
  day_high :: "string option"
  day_low :: "string option"
  day_wind :: "wind_obj option"

record valid_period_obj =
  vp_start :: "string option"

record item =
  item_forecast :: "day_entry list option"
  item_valid_period :: "valid_period_obj option"

record raw =
  raw_items :: "item list option"

text \<open>One element of the array that \<^verbatim>\<open>parseForecast\<close> returns; \<open>date\<close> is a reference.\<close>

record forecast_day =
  date :: nat
  dayName :: "string option"
  dateStr :: string
  condition :: "string option"
  high :: jsval
  low :: jsval
  emoji :: jsval
  wind :: string

datatype jserror = Error string | TypeError string | SyntaxError string

fun message :: "jserror \<Rightarrow> string" where
  "message (Error m) = m"
| "message (TypeError m) = m"
| "message (SyntaxError m) = m"

text \<open>
  Reading a property of \<^verbatim>\<open>undefined\<close> throws a \<^verbatim>\<open>TypeError\<close>; the wording of its
  message is the engine's.
\<close>

definition undefined_read :: "string \<Rightarrow> jserror" where
  "undefined_read p = TypeError (''Cannot read properties of undefined (reading '' @ p @ '')'')"

text \<open>The conversion of a template literal, \<^verbatim>\<open>${v}\<close>.\<close>

definition template_str :: "string option \<Rightarrow> string" where
  "template_str v = (case v of None \<Rightarrow> ''undefined'' | Some s \<Rightarrow> s)"

definition number_val :: "number \<Rightarrow> jsval" where
  "number_val x = (case x of None \<Rightarrow> NaN | Some n \<Rightarrow> Num n)"

text \<open>
  \<^verbatim>\<open>v ? parseInt(v) : 'N/A'\<close> for a property \<open>v\<close> that is a string or missing;
  \<^verbatim>\<open>undefined\<close> and the empty string are the falsy ones.
\<close>

definition temperature :: "string option \<Rightarrow> jsval" where
  "temperature v =
    (case v of
       None \<Rightarrow> Str ''N/A''
     | Some s \<Rightarrow> if truthy (Str s) then number_val (parseInt s) else Str ''N/A'')"

text \<open>The callback of \<^verbatim>\<open>forecast.map\<close>, applied to \<open>day\<close> at position \<open>index\<close>.\<close>

definition parseDay :: "env \<Rightarrow> string option \<Rightarrow> day_entry \<Rightarrow> nat \<Rightarrow> heap \<Rightarrow> forecast_day \<times> heap" where
  "parseDay e validDate day index h =
    (let (date, h1) = newDate e validDate h;
         h2 = setDate e date (map_option (\<lambda>d. d + int index) (getDate e h1 date)) h1
     in (\<lparr>date = date,
          dayName = getDayName e h2 date,
          dateStr = formatDate e h2 date,
          condition = day_text day,
          high = temperature (day_high day),
          low = temperature (day_low day),
          emoji = getWeatherEmoji (day_text day),
          wind = (case day_wind day of
                    None \<Rightarrow> ''N/A''
                  | Some w \<Rightarrow> template_str (wind_direction w) @ '' '' @ template_str (wind_speed w))\<rparr>,
         h2))"

fun mapDays :: "env \<Rightarrow> string option \<Rightarrow> day_entry list \<Rightarrow> nat \<Rightarrow> heap \<Rightarrow> forecast_day list \<times> heap" where
  "mapDays e validDate [] index h = ([], h)"
| "mapDays e validDate (day # rest) index h =
    (let (r, h1) = parseDay e validDate day index h;
         (rs, h2) = mapDays e validDate rest (Suc index) h1
     in (r # rs, h2))"

text \<open>
  \<^verbatim>\<open>parseForecast(data)\<close>. The two property reads come in the order of the source:
  \<^verbatim>\<open>data.items[0].valid_period.start\<close> throws when \<^verbatim>\<open>valid_period\<close> is missing, and
  after it \<^verbatim>\<open>forecast.map\<close> throws when \<^verbatim>\<open>forecast\<close> is missing.
\<close>

definition parseForecast :: "env \<Rightarrow> raw \<Rightarrow> heap \<Rightarrow> (jserror + forecast_day list) \<times> heap" where
  "parseForecast e data h =
    (case raw_items data of
       None \<Rightarrow> (Inr [], h)
     | Some [] \<Rightarrow> (Inr [], h)
     | Some (item0 # later) \<Rightarrow>
        (case item_valid_period item0 of
           None \<Rightarrow> (Inl (undefined_read ''start''), h)
         | Some vp \<Rightarrow>
            (case item_forecast item0 of
               None \<Rightarrow> (Inl (undefined_read ''map''), h)
             | Some forecast \<Rightarrow>
                (let (r, h') = mapDays e (vp_start vp) forecast 0 h in (Inr r, h')))))"

subsection \<open>\<^verbatim>\<open>fetch4DayForecast\<close> and \<^verbatim>\<open>initWeather\<close>\<close>

text \<open>
  What the network does is an input: \<^verbatim>\<open>fetch\<close> rejects, or it resolves to a response
  with a status and a body that \<^verbatim>\<open>response.json()\<close> either rejects or parses.
\<close>

datatype body = InvalidJson string | Json raw

record response =
  status :: nat
  body :: body

datatype fetch_outcome = Rejected jserror | Responded response

definition ok :: "response \<Rightarrow> bool" where
  "ok r = (200 \<le> status r \<and> status r \<le> 299)"

text \<open>
  The writes of the program that can be seen from outside, in the order in which they
  happen. The three elements that \<^verbatim>\<open>initWeather\<close> looks up are taken to exist. The
  markup assigned to \<^verbatim>\<open>innerHTML\<close> is one block per forecast record; the write is kept
  with the records the markup is built from.
\<close>

datatype effect =
    ConsoleError string jserror
  | SetLoadingDisplay string
  | SetErrorDisplay string
  | SetErrorText string
  | SetForecastHTML "forecast_day list"

definition fetch4DayForecast_try :: "fetch_outcome \<Rightarrow> jserror + raw" where
  "fetch4DayForecast_try outcome =
    (case outcome of
       Rejected err \<Rightarrow> Inl err
     | Responded r \<Rightarrow>
        if \<not> ok r then Inl (Error (''API error: '' @ int_toString (int (status r))))
        else (case body r of InvalidJson m \<Rightarrow> Inl (SyntaxError m) | Json data \<Rightarrow> Inr data))"

definition fetch4DayForecast :: "fetch_outcome \<Rightarrow> (jserror + raw) \<times> effect list" where
  "fetch4DayForecast outcome =
    (case fetch4DayForecast_try outcome of
       Inl err \<Rightarrow> (Inl err, [ConsoleError ''Weather API Error:'' err])
     | Inr data \<Rightarrow> (Inr data, []))"

definition initWeather_try :: "env \<Rightarrow> fetch_outcome \<Rightarrow> heap \<Rightarrow> (jserror + unit) \<times> effect list \<times> heap" where
  "initWeather_try e outcome h =
    (case fetch4DayForecast outcome of
       (Inl err, log) \<Rightarrow> (Inl err, log, h)
     | (Inr data, log) \<Rightarrow>
        (case parseForecast e data h of
           (Inl err, h') \<Rightarrow> (Inl err, log, h')
         | (Inr forecast, h') \<Rightarrow>
            if length forecast = 0 then (Inl (Error ''No forecast data available''), log, h')
            else (Inr (), log @ [SetLoadingDisplay ''none'', SetForecastHTML forecast], h')))"

definition initWeather :: "env \<Rightarrow> fetch_outcome \<Rightarrow> heap \<Rightarrow> effect list \<times> heap" where
  "initWeather e outcome h =
    (case initWeather_try e outcome h of
       (Inl err, log, h') \<Rightarrow>
         (log @ [ConsoleError ''Weather initialization error:'' err,
                 SetLoadingDisplay ''none'',
                 SetErrorDisplay ''block'',
                 SetErrorText (''Unable to load weather forecast: '' @ message err @
                   ''. This is a real-time API call - ensure CORS is enabled or use a proxy server.'')],
          h')
     | (Inr u, log, h') \<Rightarrow> (log, h'))"

text \<open>The page as far as the three elements go, and what a write does to it.\<close>

record dom =
  loading_display :: string
  error_display :: string
  error_text :: string
  forecast_html :: "forecast_day list"

fun apply_effect :: "dom \<Rightarrow> effect \<Rightarrow> dom" where
  "apply_effect d (ConsoleError m err) = d"
| "apply_effect d (SetLoadingDisplay v) = d\<lparr>loading_display := v\<rparr>"
| "apply_effect d (SetErrorDisplay v) = d\<lparr>error_display := v\<rparr>"
| "apply_effect d (SetErrorText v) = d\<lparr>error_text := v\<rparr>"
| "apply_effect d (SetForecastHTML forecast) = d\<lparr>forecast_html := forecast\<rparr>"

definition run_effects :: "dom \<Rightarrow> effect list \<Rightarrow> dom" where
  "run_effects d log = foldl apply_effect d log"

text \<open>Counting the writes of a run.\<close>

fun is_loading_dismissal :: "effect \<Rightarrow> bool" where
  "is_loading_dismissal (SetLoadingDisplay v) = (v = ''none'')"
| "is_loading_dismissal x = False"

fun is_error_display :: "effect \<Rightarrow> bool" where
  "is_error_display (SetErrorText v) = True"
| "is_error_display x = False"

fun is_render :: "effect \<Rightarrow> bool" where
  "is_render (SetForecastHTML forecast) = True"
| "is_render x = False"

definition calls :: "(effect \<Rightarrow> bool) \<Rightarrow> effect list \<Rightarrow> nat" where
  "calls p log = length (filter p log)"

definition loading_shown :: "dom \<Rightarrow> bool" where
  "loading_shown d = (loading_display d \<noteq> ''none'')"

definition error_view_visible :: "dom \<Rightarrow> bool" where
  "error_view_visible d = (error_display d \<noteq> ''none'')"

definition forecast_view_visible :: "dom \<Rightarrow> bool" where
  "forecast_view_visible d = (forecast_html d \<noteq> [])"

subsection \<open>Notions used in the statements\<close>

text \<open>
  The instant that the host gives to the local time of \<open>t\<close> advanced by \<open>index\<close> days of
  24 hours, the time value that a date object in the state \<open>x\<close> has after it is moved by
  \<open>index\<close> days, and the record that the callback builds around a date object at address
  \<open>a\<close> with time value \<open>x\<close>.
\<close>

definition nth_instant :: "env \<Rightarrow> int \<Rightarrow> nat \<Rightarrow> int" where
  "nth_instant e t index = UTC e (LocalTime e t + int index * msPerDay)"

definition advance_days :: "env \<Rightarrow> number \<Rightarrow> nat \<Rightarrow> number" where
  "advance_days e x index =
    (case x of None \<Rightarrow> None | Some t \<Rightarrow> TimeClip (nth_instant e t index))"

text \<open>
  A local time that the host, once it has turned it into an instant, reads back on the
  same local day. On a host with one fixed offset every local time is read back as
  itself; where the clock is moved forward, a local time that is skipped is read back
  later, and on another day only if the move crosses midnight.
\<close>

definition reads_back_same_day :: "env \<Rightarrow> int \<Rightarrow> bool" where
  "reads_back_same_day e l = (Day (LocalTime e (UTC e l)) = Day l)"

definition day_record :: "env \<Rightarrow> day_entry \<Rightarrow> nat \<Rightarrow> number \<Rightarrow> forecast_day" where
  "day_record e day a x =
    \<lparr>date = a,
     dayName = getDayName e [x] 0,
     dateStr = formatDate e [x] 0,
     condition = day_text day,
     high = temperature (day_high day),
     low = temperature (day_low day),
     emoji = getWeatherEmoji (day_text day),
     wind = (case day_wind day of
               None \<Rightarrow> ''N/A''
             | Some w \<Rightarrow> template_str (wind_direction w) @ '' '' @ template_str (wind_speed w))\<rparr>"

text \<open>The local calendar date of a time value: year, month (1 to 12) and day of the month.\<close>

definition calendarDate :: "env \<Rightarrow> int \<Rightarrow> int \<times> int \<times> int" where
  "calendarDate e t =
    (YearFromTime (LocalTime e t), MonthFromTime (LocalTime e t) + 1, DateFromTime (LocalTime e t))"

text \<open>
  A returned array read through the store: every record with its date object replaced by
  that object's time value. Two arrays with equal views cannot be told apart by reading
  them.
\<close>

definition forecast_view :: "heap \<Rightarrow> forecast_day \<Rightarrow> number \<times> forecast_day" where
  "forecast_view h r = (h ! date r, r\<lparr>date := 0\<rparr>)"

definition result_view :: "heap \<Rightarrow> jserror + forecast_day list \<Rightarrow> jserror + (number \<times> forecast_day) list" where
  "result_view h res = (case res of Inl err \<Rightarrow> Inl err | Inr r \<Rightarrow> Inr (map (forecast_view h) r))"

text \<open>The two ways a run of \<^verbatim>\<open>initWeather\<close> can end, read off its writes.\<close>

definition rendered :: "effect list \<Rightarrow> bool" where
  "rendered log = (calls is_render log = 1 \<and> calls is_error_display log = 0)"

definition errored :: "effect list \<Rightarrow> bool" where
  "errored log = (calls is_error_display log = 1 \<and> calls is_render log = 0)"

subsection \<open>Sample inputs\<close>

text \<open>
  A host eight hours ahead of UTC (Singapore) whose fallback parser accepts nothing, and
  responses in the shape of the wire format: four days from 7 December 2025, the same
  with a second item after it, and one with a single day.
\<close>

definition singapore :: env where
  "singapore = \<lparr>LocalTZA = (\<lambda>t isUTC. 28800000), legacy_parse = (\<lambda>s. None)\<rparr>"

text \<open>A host on UTC, and one that stays five hours behind it.\<close>

definition greenwich :: env where
  "greenwich = \<lparr>LocalTZA = (\<lambda>t isUTC. 0), legacy_parse = (\<lambda>s. None)\<rparr>"

definition new_york :: env where
  "new_york = \<lparr>LocalTZA = (\<lambda>t isUTC. - 18000000), legacy_parse = (\<lambda>s. None)\<rparr>"

text \<open>
  A host with daylight saving: five hours behind UTC until 8 March 2026, 07:00 UTC, when
  its clock goes from 02:00 to 03:00, and four hours behind from then on. A local time
  in the hour that is skipped is read with the offset from before the change.
\<close>

definition eastern :: env where
  "eastern =
    \<lparr>LocalTZA = (\<lambda>t isUTC.
        if isUTC then (if t < 1772953200000 then - 18000000 else - 14400000)
        else (if t < 1772953200000 - 14400000 then - 18000000 else - 14400000)),
     legacy_parse = (\<lambda>s. None)\<rparr>"

definition fair_day :: day_entry where
  "fair_day =
    \<lparr>day_text = Some ''Fair'', day_high = Some ''32'', day_low = Some ''25'',
     day_wind = Some \<lparr>wind_direction = Some ''NE'', wind_speed = Some ''15''\<rparr>\<rparr>"

definition showers_day :: day_entry where
  "showers_day =
    \<lparr>day_text = Some ''Thundery showers'', day_high = Some ''31'', day_low = None,
     day_wind = None\<rparr>"

definition four_day_item :: item where
  "four_day_item =
    \<lparr>item_forecast = Some [fair_day, showers_day, showers_day, fair_day],
     item_valid_period = Some \<lparr>vp_start = Some ''2025-12-07T00:00:00+08:00''\<rparr>\<rparr>"

definition one_day_item :: item where
  "one_day_item =
    \<lparr>item_forecast = Some [fair_day],
     item_valid_period = Some \<lparr>vp_start = Some ''2025-01-05T00:00:00+08:00''\<rparr>\<rparr>"

definition four_day_raw :: raw where
  "four_day_raw = \<lparr>raw_items = Some [four_day_item]\<rparr>"

definition two_item_raw :: raw where
  "two_item_raw = \<lparr>raw_items = Some [four_day_item, one_day_item]\<rparr>"

definition one_day_raw :: raw where
  "one_day_raw = \<lparr>raw_items = Some [one_day_item]\<rparr>"

text \<open>The four-day response with the validity start written as a date only.\<close>

definition date_only_raw :: raw where
  "date_only_raw =
    \<lparr>raw_items = Some [\<lparr>item_forecast = Some [fair_day, showers_day, showers_day, fair_day],
                        item_valid_period = Some \<lparr>vp_start = Some ''2025-12-07''\<rparr>\<rparr>]\<rparr>"

text \<open>
  Responses that leave the wire format: a day whose \<^verbatim>\<open>wind\<close> has no \<^verbatim>\<open>direction\<close> and
  whose \<^verbatim>\<open>high\<close> is the empty string, and an item whose \<^verbatim>\<open>valid_period\<close> has no
  \<^verbatim>\<open>start\<close>.
\<close>

definition gusty_day :: day_entry where
  "gusty_day =
    \<lparr>day_text = Some ''Windy'', day_high = Some [], day_low = Some ''24'',
     day_wind = Some \<lparr>wind_direction = None, wind_speed = Some ''10''\<rparr>\<rparr>"

definition gusty_raw :: raw where
  "gusty_raw =
    \<lparr>raw_items = Some [\<lparr>item_forecast = Some [gusty_day],
                        item_valid_period = Some \<lparr>vp_start = Some ''2025-12-07''\<rparr>\<rparr>]\<rparr>"

definition no_start_raw :: raw where
  "no_start_raw =
    \<lparr>raw_items = Some [\<lparr>item_forecast = Some [fair_day],
                        item_valid_period = Some \<lparr>vp_start = None\<rparr>\<rparr>]\<rparr>"

definition no_period_raw :: raw where
  "no_period_raw =
    \<lparr>raw_items = Some [\<lparr>item_forecast = Some [fair_day], item_valid_period = None\<rparr>]\<rparr>"

definition initial_dom :: dom where
  "initial_dom =
    \<lparr>loading_display = ''block'', error_display = ''none'', error_text = [], forecast_html = []\<rparr>"

section \<open>Properties\<close>

subsection \<open>The date arithmetic\<close>

text \<open>
  \<^verbatim>\<open>date.setDate(date.getDate() + k)\<close> moves the local time of the date by exactly \<open>k\<close>
  days of 24 hours, whatever the year and month of the date are: the day number that
  \<^term>\<open>MakeDay\<close> rebuilds from year, month and day of the month is the day number they were
  taken from. The new time value is the instant that the host gives to that local time.
\<close>

lemma MonthFromTime_range: "0 \<le> MonthFromTime t \<and> MonthFromTime t \<le> 11"
  unfolding MonthFromTime_def Let_def by simp

lemma MakeDay_roundtrip:
  "MakeDay (YearFromTime t) (MonthFromTime t) (DateFromTime t + k) = Day t + k"
proof -
  have "MonthFromTime t div 12 = 0" "MonthFromTime t mod 12 = MonthFromTime t"
    using MonthFromTime_range [of t] by simp_all
  then show ?thesis
    by (simp add: MakeDay_def DateFromTime_def DayWithinYear_def InLeapYear_def)
qed

lemma MakeDate_Day: "MakeDate (Day t + k) (TimeWithinDay t) = t + k * msPerDay"
  by (simp add: MakeDate_def Day_def TimeWithinDay_def algebra_simps)

lemma Day_advance: "Day (t + k * msPerDay) = Day t + k"
  by (simp add: Day_def msPerDay_def)

lemma setDate_advance:
  assumes "a < length h"
  shows "setDate e a (map_option (\<lambda>d. d + int k) (getDate e h a)) h = h[a := advance_days e (h ! a) k]"
proof (cases "h ! a")
  case None
  then show ?thesis by (simp add: setDate_def advance_days_def)
next
  case (Some t)
  have "UTC e (MakeDate (MakeDay (YearFromTime (LocalTime e t)) (MonthFromTime (LocalTime e t))
          (DateFromTime (LocalTime e t) + int k)) (TimeWithinDay (LocalTime e t))) = nth_instant e t k"
    by (simp add: MakeDay_roundtrip MakeDate_Day nth_instant_def)
  with Some show ?thesis
    by (simp add: setDate_def advance_days_def getDate_def Let_def)
qed

lemma advance_days_valid:
  "\<bar>nth_instant e d i\<bar> \<le> 8640000000000000 \<Longrightarrow>
   advance_days e (Some d) i = Some (nth_instant e d i)"
  by (simp add: advance_days_def TimeClip_def)

text \<open>
  On a host with one fixed offset the instant is the start plus the days, and every local
  time is read back as itself.
\<close>

lemma nth_instant_fixed_offset:
  assumes "LocalTZA e = (\<lambda>t isUTC. z)"
  shows "nth_instant e t i = t + int i * msPerDay"
  by (simp add: nth_instant_def UTC_def LocalTime_def assms)

lemma advance_days_fixed_offset:
  assumes "LocalTZA e = (\<lambda>t isUTC. z)"
  shows "advance_days e (Some t) i = TimeClip (t + int i * msPerDay)"
  by (simp add: advance_days_def nth_instant_fixed_offset [OF assms])

lemma reads_back_fixed_offset:
  assumes "LocalTZA e = (\<lambda>t isUTC. z)"
  shows "reads_back_same_day e l"
  by (simp add: reads_back_same_day_def UTC_def LocalTime_def assms)

text \<open>
  \<^term>\<open>YearFromTime\<close> is the year of the standard: the last one that begins on or before
  the day.
\<close>

lemma year_down_lower: "DayFromYear (year_down y d) \<le> d"
proof (induction y d rule: year_down.induct)
  case (1 y d)
  then show ?case by (subst year_down.simps) simp
qed

lemma year_down_upper: "d < DayFromYear (y + 1) \<Longrightarrow> d < DayFromYear (year_down y d + 1)"
proof (induction y d rule: year_down.induct)
  case (1 y d)
  show ?case
  proof (cases "DayFromYear y \<le> d")
    case True
    with "1.prems" show ?thesis by (subst year_down.simps) simp
  next
    case False
    then have "d < DayFromYear (y - 1 + 1)" by simp
    with False "1.IH" show ?thesis by (subst year_down.simps) simp
  qed
qed

lemma search_starts_late: "d < DayFromYear (1972 + (if d < 0 then 0 else d div 365))"
proof (cases "d < 0")
  case True
  then show ?thesis by (simp add: DayFromYear_def)
next
  case False
  define k where "k = d div 365"
  have k: "0 \<le> k" using False by (simp add: k_def pos_imp_zdiv_nonneg_iff)
  have d: "d < 365 * k + 365"
  proof -
    define r where "r = d mod 365"
    have "d = 365 * k + r" by (simp add: k_def r_def)
    moreover have "r < 365" by (simp add: r_def)
    ultimately show ?thesis by linarith
  qed
  have "(k + 71) div 100 \<le> (25 * (k + 3)) div 100"
    using k by (intro zdiv_mono1) simp_all
  also have "\<dots> = (k + 3) div 4"
    by simp
  finally have b: "(k + 71) div 100 \<le> (k + 3) div 4" .
  have c: "0 \<le> (k + 371) div 400"
    using k by (simp add: pos_imp_zdiv_nonneg_iff)
  have "DayFromYear (1972 + k) = 365 * k + 730 + (k + 3) div 4 - (k + 71) div 100 + (k + 371) div 400"
    by (simp add: DayFromYear_def algebra_simps)
  with b c d have "d < DayFromYear (1972 + k)" by linarith
  with False show ?thesis by (simp add: k_def)
qed

lemma YearFromTime_spec:
  "DayFromYear (YearFromTime t) \<le> Day t \<and> Day t < DayFromYear (YearFromTime t + 1)"
proof -
  let ?d = "Day t"
  let ?y = "1971 + (if ?d < 0 then 0 else ?d div 365)"
  have "?d < DayFromYear (?y + 1)"
    using search_starts_late [of ?d] by (simp add: algebra_simps)
  from year_down_upper [OF this] year_down_lower [of ?y ?d] show ?thesis
    by (simp add: YearFromTime_def YearFromDay_def)
qed

text \<open>
  Year, month, day of the month and weekday depend on the day number only, and give the
  day number back.
\<close>

lemma calendar_of_day:
  assumes "Day t = Day t'"
  shows "YearFromTime t = YearFromTime t'" "MonthFromTime t = MonthFromTime t'"
    "DateFromTime t = DateFromTime t'" "WeekDay t = WeekDay t'"
  using assms
  by (simp_all add: YearFromTime_def MonthFromTime_def DateFromTime_def DayWithinYear_def
      InLeapYear_def WeekDay_def)

lemma Day_of_calendar:
  "Day t = MakeDay (YearFromTime t) (MonthFromTime t) (DateFromTime t)"
  using MakeDay_roundtrip [of t 0] by simp

lemma Day_of_day: "Day (n * msPerDay) = n"
  by (simp add: Day_def msPerDay_def)

lemma calendarDate_of_day:
  assumes "Day (LocalTime e t) = n"
  shows "calendarDate e t = calendarDate greenwich (n * msPerDay)"
proof -
  have "Day (LocalTime e t) = Day (LocalTime greenwich (n * msPerDay))"
    using assms by (simp add: LocalTime_def greenwich_def Day_of_day)
  from calendar_of_day(1-3) [OF this] show ?thesis
    by (simp add: calendarDate_def)
qed

text \<open>What the two helpers of the source read from a date object depends on its cell only.\<close>

lemma getDayName_cell: "getDayName e (h @ [x]) (length h) = getDayName e [x] 0"
  by (simp add: getDayName_def getDay_def)

lemma getDayName_valid:
  "getDayName e [Some t] 0 = Some (days ! nat (WeekDay (LocalTime e t)))"
  by (simp add: getDayName_def getDay_def WeekDay_def days_def)

lemma getDayName_invalid: "getDayName e [None] 0 = None"
  by (simp add: getDayName_def getDay_def)

lemma formatDate_cell: "formatDate e (h @ [x]) (length h) = formatDate e [x] 0"
  by (simp add: formatDate_def getDate_def getMonth_def)

lemma formatDate_valid:
  "formatDate e [Some t] 0 =
    padStart (int_toString (DateFromTime (LocalTime e t))) 2 CHR ''0'' @ ''/'' @
    padStart (int_toString (MonthFromTime (LocalTime e t) + 1)) 2 CHR ''0''"
  by (simp add: formatDate_def getDate_def getMonth_def number_toString_def)

lemma formatDate_invalid: "formatDate e [None] 0 = ''NaN/NaN''"
  by (simp add: formatDate_def getDate_def getMonth_def number_toString_def padStart_def)

lemma nat_digits_small: "n < 10 \<Longrightarrow> nat_digits n = [digit_char n]"
  by (simp add: nat_digits.simps)

subsection \<open>The callback and the loop of \<^verbatim>\<open>parseForecast\<close>\<close>

lemma temperature_absent: "temperature None = Str ''N/A''" "temperature (Some []) = Str ''N/A''"
  by (simp_all add: temperature_def)

lemma temperature_present: "s \<noteq> [] \<Longrightarrow> temperature (Some s) = number_val (parseInt s)"
  by (simp add: temperature_def)

text \<open>
  One call of the callback allocates one date object, moves it, and builds the record
  around it; it leaves every older cell of the store as it was.
\<close>

lemma parseDay_eq:
  "parseDay e v day k h =
    (day_record e day (length h) (advance_days e (Date_value e v) k), h @ [advance_days e (Date_value e v) k])"
proof -
  have "setDate e (length h) (map_option (\<lambda>d. d + int k) (getDate e (h @ [Date_value e v]) (length h))) (h @ [Date_value e v])
      = h @ [advance_days e (Date_value e v) k]"
    by (subst setDate_advance) simp_all
  then show ?thesis
    by (simp add: parseDay_def newDate_def day_record_def getDayName_cell formatDate_cell)
qed

lemma mapDays_heap:
  "snd (mapDays e v ds k h) = h @ map (\<lambda>i. advance_days e (Date_value e v) i) [k..<k + length ds]"
proof (induction ds arbitrary: k h)
  case Nil
  then show ?case by simp
next
  case (Cons d ds)
  have "[k..<k + length (d # ds)] = k # [Suc k..<Suc k + length ds]"
    by (subst upt_rec) simp
  then show ?case
    using Cons.IH [of "Suc k" "h @ [advance_days e (Date_value e v) k]"]
    by (simp add: parseDay_eq split_beta)
qed

lemma mapDays_length: "length (fst (mapDays e v ds k h)) = length ds"
  by (induction ds arbitrary: k h) (simp_all add: parseDay_eq split_beta)

lemma mapDays_nth:
  "i < length ds \<Longrightarrow>
   fst (mapDays e v ds k h) ! i = day_record e (ds ! i) (length h + i) (advance_days e (Date_value e v) (k + i))"
proof (induction ds arbitrary: i k h)
  case Nil
  then show ?case by simp
next
  case (Cons d ds)
  show ?case
  proof (cases i)
    case 0
    then show ?thesis by (simp add: parseDay_eq split_beta)
  next
    case (Suc j)
    with Cons.prems have "j < length ds" by simp
    from Cons.IH [OF this, of "Suc k" "h @ [advance_days e (Date_value e v) k]"] Suc
    show ?thesis by (simp add: parseDay_eq split_beta)
  qed
qed

lemma parseForecast_no_items:
  "raw_items data = None \<or> raw_items data = Some [] \<Longrightarrow> parseForecast e data h = (Inr [], h)"
  by (auto simp: parseForecast_def)

lemma parseForecast_first_item:
  assumes "raw_items data = Some (item0 # later)"
    and "item_valid_period item0 = Some vp"
    and "item_forecast item0 = Some forecast"
  shows "parseForecast e data h =
    (Inr (fst (mapDays e (vp_start vp) forecast 0 h)), snd (mapDays e (vp_start vp) forecast 0 h))"
  using assms by (simp add: parseForecast_def split_beta)

lemma parseForecast_records:
  assumes "raw_items data = Some (item0 # later)"
    and "item_valid_period item0 = Some vp"
    and "item_forecast item0 = Some forecast"
  shows "\<exists>r h'. parseForecast e data h = (Inr r, h') \<and> length r = length forecast \<and>
    h' = h @ map (advance_days e (Date_value e (vp_start vp))) [0..<length forecast] \<and>
    (\<forall>i<length forecast.
       r ! i = day_record e (forecast ! i) (length h + i) (advance_days e (Date_value e (vp_start vp)) i))"
  using assms mapDays_nth [of _ forecast e "vp_start vp" 0 h]
  by (simp add: parseForecast_first_item mapDays_length mapDays_heap)

text \<open>
  A call either returns at once, with the empty array or a \<^verbatim>\<open>TypeError\<close> and the store
  untouched, or it maps the entries of the first item.
\<close>

lemma parseForecast_shape:
  "(\<exists>res. (\<forall>h. parseForecast e data h = (res, h)) \<and> (res = Inr [] \<or> (\<exists>m. res = Inl (TypeError m)))) \<or>
   (\<exists>item0 later vp forecast. raw_items data = Some (item0 # later) \<and>
      item_valid_period item0 = Some vp \<and> item_forecast item0 = Some forecast)"
proof (cases "raw_items data")
  case None
  then show ?thesis by (simp add: parseForecast_def)
next
  case (Some its)
  show ?thesis
  proof (cases its)
    case Nil
    with Some show ?thesis by (simp add: parseForecast_def)
  next
    case (Cons item0 later)
    show ?thesis
    proof (cases "item_valid_period item0")
      case None
      with Some Cons show ?thesis by (simp add: parseForecast_def undefined_read_def)
    next
      case vp: (Some vp)
      show ?thesis
      proof (cases "item_forecast item0")
        case None
        with Some Cons vp show ?thesis by (simp add: parseForecast_def undefined_read_def)
      next
        case fc: (Some forecast)
        with Some Cons vp show ?thesis by simp
      qed
    qed
  qed
qed

lemma day_record_view:
  "forecast_view h (day_record e day a x) = (h ! a, day_record e day 0 x)"
  by (simp add: forecast_view_def day_record_def)

lemma parseForecast_view:
  assumes "raw_items data = Some (item0 # later)"
    and "item_valid_period item0 = Some vp"
    and "item_forecast item0 = Some forecast"
  shows "\<exists>r h'. parseForecast e data h = (Inr r, h') \<and> take (length h) h' = h \<and>
    (\<forall>h''. take (length h') h'' = h' \<longrightarrow>
       map (forecast_view h'') r =
         map (\<lambda>i. (advance_days e (Date_value e (vp_start vp)) i,
                   day_record e (forecast ! i) 0 (advance_days e (Date_value e (vp_start vp)) i)))
           [0..<length forecast])"
proof -
  let ?x = "advance_days e (Date_value e (vp_start vp))"
  from parseForecast_records [OF assms, of e h]
  obtain r h' where run: "parseForecast e data h = (Inr r, h')"
    and len: "length r = length forecast"
    and heap: "h' = h @ map ?x [0..<length forecast]"
    and each: "\<And>i. i < length forecast \<Longrightarrow>
       r ! i = day_record e (forecast ! i) (length h + i) (?x i)"
    by blast
  have frame: "take (length h) h' = h"
    using heap by simp
  have view: "map (forecast_view h'') r =
      map (\<lambda>i. (?x i, day_record e (forecast ! i) 0 (?x i))) [0..<length forecast]"
    if ext: "take (length h') h'' = h'" for h''
  proof (rule nth_equalityI)
    show "length (map (forecast_view h'') r) =
        length (map (\<lambda>i. (?x i, day_record e (forecast ! i) 0 (?x i))) [0..<length forecast])"
      using len by simp
  next
    fix i
    assume "i < length (map (forecast_view h'') r)"
    then have i: "i < length forecast"
      using len by simp
    have "length h + i < length h'"
      using heap i by simp
    then have "h'' ! (length h + i) = h' ! (length h + i)"
      using ext by (metis nth_take)
    also have "\<dots> = ?x i"
      using heap i by (simp add: nth_append)
    finally have cell: "h'' ! (length h + i) = ?x i" .
    show "map (forecast_view h'') r ! i =
        map (\<lambda>i. (?x i, day_record e (forecast ! i) 0 (?x i))) [0..<length forecast] ! i"
      using i len each [OF i] cell by (simp add: day_record_view)
  qed
  from run frame view show ?thesis by blast
qed

subsection \<open>The sample inputs, evaluated\<close>

lemma sample_hosts_fixed:
  "LocalTZA singapore = (\<lambda>t isUTC. 28800000)"
  "LocalTZA new_york = (\<lambda>t isUTC. - 18000000)"
  by (simp_all add: singapore_def new_york_def)

lemma sample_numbers:
  "parseInt ''24'' = Some 24" "parseInt ''25'' = Some 25" "parseInt ''31'' = Some 31"
  "parseInt ''32'' = Some 32"
  by code_simp+

lemma sample_emoji:
  "getWeatherEmoji (Some ''Windy'') = Str emoji_wind"
  "getWeatherEmoji (Some ''Fair'') = Str emoji_sun"
  "getWeatherEmoji (Some ''Thundery showers'') = Str emoji_storm"
  by code_simp+

lemma one_day_start:
  "Date_value singapore (Some ''2025-01-05T00:00:00+08:00'') = Some 1736006400000"
  by code_simp

lemma one_day_calendar:
  "YearFromTime (LocalTime singapore 1736006400000) = 2025"
  "MonthFromTime (LocalTime singapore 1736006400000) = 0"
  "DateFromTime (LocalTime singapore 1736006400000) = 5"
  "WeekDay (LocalTime singapore 1736006400000) = 0"
  by code_simp+

lemma one_day_run:
  "parseForecast singapore one_day_raw [] =
    (Inr [\<lparr>date = 0, dayName = Some ''Sun'', dateStr = ''05/01'', condition = Some ''Fair'',
           high = Num 32, low = Num 25, emoji = Str emoji_sun, wind = ''NE 15''\<rparr>],
     [Some 1736006400000])"
  by (simp add: parseForecast_def one_day_raw_def one_day_item_def fair_day_def parseDay_eq
      day_record_def one_day_start advance_days_fixed_offset [OF sample_hosts_fixed(1)] TimeClip_def getDayName_valid formatDate_valid
      one_day_calendar days_def int_toString_def nat_digits.simps digit_char_def padStart_def
      temperature_present sample_numbers number_val_def sample_emoji template_str_def)

lemma gusty_start: "Date_value singapore (Some ''2025-12-07'') = Some 1765065600000"
  by code_simp

lemma gusty_calendar:
  "WeekDay (LocalTime singapore 1765065600000) = 0"
  "DateFromTime (LocalTime singapore 1765065600000) = 7"
  "MonthFromTime (LocalTime singapore 1765065600000) = 11"
  by code_simp+

lemma four_day_start:
  "Date_value singapore (Some ''2025-12-07T00:00:00+08:00'') = Some 1765036800000"
  by code_simp

lemma four_day_dates: "calendarDate singapore 1765036800000 = (2025, 12, 7)"
  by code_simp

text \<open>
  The source reads a date through the local-time getters of the host. A string with a
  time and an offset names one instant, and a string with a date only is read as midnight
  UTC; on a host behind UTC that instant still belongs to the day before.
\<close>

lemma date_only_start_behind_utc:
  "Date_value new_york (Some ''2025-12-07'') = Some 1765065600000"
  "calendarDate new_york 1765065600000 = (2025, 12, 6)"
  "calendarDate greenwich 1765065600000 = (2025, 12, 7)"
  by code_simp+

lemma behind_utc_calendar:
  "WeekDay (LocalTime new_york 1765065600000) = 6"
  "DateFromTime (LocalTime new_york 1765065600000) = 6"
  "MonthFromTime (LocalTime new_york 1765065600000) = 11"
  "WeekDay (LocalTime new_york 1765152000000) = 0"
  "DateFromTime (LocalTime new_york 1765152000000) = 7"
  "MonthFromTime (LocalTime new_york 1765152000000) = 11"
  "WeekDay (LocalTime new_york 1765238400000) = 1"
  "DateFromTime (LocalTime new_york 1765238400000) = 8"
  "MonthFromTime (LocalTime new_york 1765238400000) = 11"
  "WeekDay (LocalTime new_york 1765324800000) = 2"
  "DateFromTime (LocalTime new_york 1765324800000) = 9"
  "MonthFromTime (LocalTime new_york 1765324800000) = 11"
  by code_simp+

text \<open>
  Where the clock goes forward between the start and the \<open>i\<close>-th day, \<^verbatim>\<open>setDate\<close> keeps
  the local time of day, so the instant is an hour less than \<open>i\<close> days after the start:
  from midnight of 7 March 2026 on the host with daylight saving, the second day is 47
  hours on, at midnight of 9 March.
\<close>

lemma across_clock_change:
  "Date_value eastern (Some ''2026-03-07T00:00:00-05:00'') = Some 1772859600000"
  "nth_instant eastern 1772859600000 2 = 1772859600000 + 2 * msPerDay - 3600000"
  "calendarDate eastern 1772859600000 = (2026, 3, 7)"
  "calendarDate eastern (nth_instant eastern 1772859600000 2) = (2026, 3, 9)"
  "reads_back_same_day eastern (LocalTime eastern 1772859600000 + 2 * msPerDay)"
  by code_simp+

text \<open>The four days from 7 December 2025, on any host.\<close>

lemma december_2025_days:
  "calendarDate greenwich (20429 * msPerDay) = (2025, 12, 7)"
  "calendarDate greenwich (20430 * msPerDay) = (2025, 12, 8)"
  "calendarDate greenwich (20431 * msPerDay) = (2025, 12, 9)"
  "calendarDate greenwich (20432 * msPerDay) = (2025, 12, 10)"
  by code_simp+

lemma december_2025:
  assumes "calendarDate e d = (2025, 12, 7)" and "i < 4"
    and "Day (LocalTime e u) = Day (LocalTime e d) + int i"
  shows "calendarDate e u = (2025, 12, 7 + int i)"
    and "days ! nat (WeekDay (LocalTime e u)) = [''Sun'', ''Mon'', ''Tue'', ''Wed''] ! i"
proof -
  have "Day (LocalTime e d) = MakeDay 2025 11 7"
    using assms(1) Day_of_calendar [of "LocalTime e d"] by (simp add: calendarDate_def)
  also have "\<dots> = 20429"
    by (simp add: MakeDay_def DayFromYear_def InLeapYear_of_def month_start_def)
  finally have day: "Day (LocalTime e u) = 20429 + int i"
    using assms(3) by simp
  from assms(2) consider "i = 0" | "i = 1" | "i = 2" | "i = 3"
    by linarith
  then show "calendarDate e u = (2025, 12, 7 + int i)"
    using calendarDate_of_day [OF day] december_2025_days by cases simp_all
  from assms(2) consider "i = 0" | "i = 1" | "i = 2" | "i = 3"
    by linarith
  then show "days ! nat (WeekDay (LocalTime e u)) = [''Sun'', ''Mon'', ''Tue'', ''Wed''] ! i"
    using day by cases (simp_all add: WeekDay_def days_def)
qed


subsection \<open>\<^verbatim>\<open>formatDate\<close>\<close>

text \<open>
  C9. \<^verbatim>\<open>formatDate\<close> of a date object whose local calendar date is 5 January 2025
  is \<^verbatim>\<open>"05/01"\<close>: the day first, then the month, each padded with a zero to two
  digits, with a slash between them.
\<close>

theorem formatDate_day_first:
  assumes "h ! a = Some t" and "calendarDate e t = (2025, 1, 5)"
  shows "formatDate e h a = ''05/01''"
proof -
  from assms(2) have "MonthFromTime (LocalTime e t) = 0" "DateFromTime (LocalTime e t) = 5"
    by (simp_all add: calendarDate_def)
  with assms(1) show ?thesis
    by (simp add: formatDate_def getDate_def getMonth_def number_toString_def int_toString_def
        nat_digits_small digit_char_def padStart_def)
qed

text \<open>
  The date object that \<^verbatim>\<open>new Date("2025-01-05T00:00:00+08:00")\<close> gives holds the time
  value 1736006400000; read eight hours ahead of UTC it is 5 January 2025.
\<close>

theorem formatDate_day_first_witness:
  "[Some 1736006400000] ! 0 = Some (1736006400000 :: int) \<and>
   calendarDate singapore 1736006400000 = (2025, 1, 5) \<and>
   formatDate singapore [Some 1736006400000] 0 = ''05/01''"
proof -
  have c: "[Some 1736006400000] ! 0 = Some (1736006400000 :: int)"
    by simp
  have d: "calendarDate singapore 1736006400000 = (2025, 1, 5)"
    by (simp add: calendarDate_def one_day_calendar)
  from formatDate_day_first [OF c d] c d show ?thesis by blast
qed

subsection \<open>\<^verbatim>\<open>getWeatherEmoji\<close>\<close>

text \<open>
  The two string tests of the source are the prefix and the contiguous-sublist relations
  of the list library, and the loop returns the emoji of the first entry that matches.
\<close>

lemma startsWith_prefix: "startsWith s k = prefix k s"
  by (induction s k rule: startsWith.induct) auto

lemma str_includes_sublist: "str_includes s k = sublist k s"
  by (induction s) (auto simp: startsWith_prefix sublist_Cons_right)

lemma partialMatch_find:
  "partialMatch cl entries =
    map_option snd (find (\<lambda>(k, e). sublist (toLowerCase k) cl) entries)"
  by (induction entries) (auto simp: str_includes_sublist)

lemma weatherEmoji_nonempty: "map_of weatherEmoji c = Some e \<Longrightarrow> e \<noteq> []"
  by (auto simp: weatherEmoji_def emoji_sun_def emoji_partly_def emoji_cloud_def emoji_rain_def
      emoji_storm_def emoji_wind_def emoji_fog_def split: if_splits)

lemma weatherEmoji_no_empty_key: "map_of weatherEmoji [] = None"
  by (simp add: weatherEmoji_def)

lemma partialMatch_empty: "partialMatch [] weatherEmoji = None"
  by code_simp

text \<open>
  For a condition text that is not the name of a member of \<^verbatim>\<open>Object.prototype\<close>, the
  result is the emoji of the exact key when there is one, else the emoji of the first
  entry, in declaration order, whose lower-cased key occurs in the lower-cased text, else
  the default emoji.
\<close>

lemma getWeatherEmoji_own_keys:
  assumes "c \<notin> set objectPrototypeKeys"
  shows "getWeatherEmoji (Some c) =
    (case map_of weatherEmoji c of
       Some e \<Rightarrow> Str e
     | None \<Rightarrow>
        (case find (\<lambda>(k, e). sublist (toLowerCase k) (toLowerCase c)) weatherEmoji of
           Some (k, e) \<Rightarrow> Str e
         | None \<Rightarrow> Str emoji_default))"
proof (cases "c = []")
  case True
  have "toLowerCase [] = []" by (simp add: toLowerCase_def)
  with True partialMatch_empty show ?thesis
    by (simp add: getWeatherEmoji_def weatherEmoji_no_empty_key partialMatch_find
        split: option.splits)
next
  case False
  show ?thesis
  proof (cases "map_of weatherEmoji c")
    case None
    with False assms show ?thesis
      by (auto simp: getWeatherEmoji_def weatherEmoji_get_def partialMatch_find split: option.splits)
  next
    case (Some e)
    with False weatherEmoji_nonempty [OF Some] show ?thesis
      by (simp add: getWeatherEmoji_def weatherEmoji_get_def)
  qed
qed

lemma getWeatherEmoji_examples:
  "getWeatherEmoji (Some ''Sunny'') = Str emoji_sun"
  "getWeatherEmoji (Some ''sunny day ahead'') = Str emoji_sun"
  "getWeatherEmoji (Some ''quantum weather'') = Str emoji_default"
  by code_simp+

text \<open>
  C4. The lookup is meant to return the mapped symbol on an exact match, else the symbol
  of the first key contained in the text, else the default symbol, for every condition
  text. It does so for the texts of the lemma above, but not for all: the exact-match
  test \<^verbatim>\<open>this.weatherEmoji[condition]\<close> also finds what the table inherits. For the text
  \<^verbatim>\<open>constructor\<close>, which is no key of the table and contains none, the function returns
  the inherited \<^verbatim>\<open>Object\<close> function and not the default symbol.
\<close>

theorem getWeatherEmoji_inherited_member:
  "getWeatherEmoji (Some ''constructor'') = ProtoMember ''constructor'' \<and>
   getWeatherEmoji (Some ''constructor'') \<noteq> Str emoji_default"
  by code_simp

subsection \<open>\<^verbatim>\<open>parseForecast\<close>\<close>

text \<open>
  C2, as stated: the \<open>i\<close>-th date is the validity start advanced by \<open>i\<close> calendar days,
  and for the start 2025-12-07 and four entries the dates are 7 to 10 December 2025, named
  Sun to Wed. The length and the order hold. The dates are not those of the start as it
  is written but those of the instant that \<^verbatim>\<open>new Date\<close> makes of it, read with the
  local-time getters of the host. On a host five hours behind UTC the start
  \<^verbatim>\<open>2025-12-07\<close>, midnight UTC, is the evening of 6 December, and the four records are
  dated 6 to 9 December and named Sat to Tue.
\<close>

theorem parseForecast_calendar_counterexample:
  "parseForecast new_york date_only_raw [] =
    (Inr [\<lparr>date = 0, dayName = Some ''Sat'', dateStr = ''06/12'', condition = Some ''Fair'',
           high = Num 32, low = Num 25, emoji = Str emoji_sun, wind = ''NE 15''\<rparr>,
          \<lparr>date = 1, dayName = Some ''Sun'', dateStr = ''07/12'',
           condition = Some ''Thundery showers'', high = Num 31, low = Str ''N/A'',
           emoji = Str emoji_storm, wind = ''N/A''\<rparr>,
          \<lparr>date = 2, dayName = Some ''Mon'', dateStr = ''08/12'',
           condition = Some ''Thundery showers'', high = Num 31, low = Str ''N/A'',
           emoji = Str emoji_storm, wind = ''N/A''\<rparr>,
          \<lparr>date = 3, dayName = Some ''Tue'', dateStr = ''09/12'', condition = Some ''Fair'',
           high = Num 32, low = Num 25, emoji = Str emoji_sun, wind = ''NE 15''\<rparr>],
     [Some 1765065600000, Some 1765152000000, Some 1765238400000, Some 1765324800000])"
  by (simp add: parseForecast_def date_only_raw_def fair_day_def showers_day_def parseDay_eq
      day_record_def date_only_start_behind_utc advance_days_fixed_offset [OF sample_hosts_fixed(2)]
      msPerDay_def TimeClip_def getDayName_valid formatDate_valid behind_utc_calendar
      days_def int_toString_def nat_digits.simps digit_char_def padStart_def
      temperature_absent temperature_present sample_numbers number_val_def sample_emoji
      template_str_def)

text \<open>
  C2, amended: when the first item has a \<^verbatim>\<open>forecast\<close> array of \<open>N\<close> entries and a
  \<^verbatim>\<open>valid_period\<close>, \<^verbatim>\<open>parseForecast\<close> returns \<open>N\<close> records in the order of the
  entries. When \<^verbatim>\<open>new Date\<close> reads the validity start on the host as a valid date \<open>d\<close>,
  the date object of the \<open>i\<close>-th record holds the instant that the host gives to the
  local time of \<open>d\<close> advanced by \<open>i\<close> days of 24 hours (as long as that instant is one a
  \<^verbatim>\<open>Date\<close> can hold, within 8.64e15 milliseconds of the epoch), and \<^verbatim>\<open>dayName\<close> is the
  name of the local weekday of that instant. Whenever the host reads that local time back
  on the same day, the local calendar date of the record is the local calendar date of
  \<open>d\<close> advanced by \<open>i\<close> days. In particular, when the local calendar date of \<open>d\<close> is
  7 December 2025, the first four dates are 7, 8, 9 and 10 December 2025 and are named
  Sun, Mon, Tue and Wed.
\<close>

theorem parseForecast_calendar:
  assumes "raw_items data = Some (item0 # later)"
    and "item_forecast item0 = Some forecast"
    and "item_valid_period item0 = Some vp"
  shows "\<exists>r h'. parseForecast e data h = (Inr r, h') \<and> length r = length forecast \<and>
    (\<forall>i<length forecast.
       condition (r ! i) = day_text (forecast ! i) \<and>
       (\<forall>d. Date_value e (vp_start vp) = Some d \<and> \<bar>nth_instant e d i\<bar> \<le> 8640000000000000 \<longrightarrow>
          h' ! date (r ! i) = Some (nth_instant e d i) \<and>
          dayName (r ! i) =
            Some ([''Sun'', ''Mon'', ''Tue'', ''Wed'', ''Thu'', ''Fri'', ''Sat''] !
              nat (WeekDay (LocalTime e (nth_instant e d i)))) \<and>
          (reads_back_same_day e (LocalTime e d + int i * msPerDay) \<longrightarrow>
             Day (LocalTime e (nth_instant e d i)) = Day (LocalTime e d) + int i \<and>
             (calendarDate e d = (2025, 12, 7) \<and> i < 4 \<longrightarrow>
                calendarDate e (nth_instant e d i) = (2025, 12, 7 + int i) \<and>
                dayName (r ! i) = Some ([''Sun'', ''Mon'', ''Tue'', ''Wed''] ! i)))))"
proof -
  let ?v = "vp_start vp"
  let ?r = "fst (mapDays e ?v forecast 0 h)"
  let ?h = "snd (mapDays e ?v forecast 0 h)"
  have run: "parseForecast e data h = (Inr ?r, ?h)"
    using assms by (simp add: parseForecast_first_item)
  have len: "length ?r = length forecast"
    by (rule mapDays_length)
  have each: "condition (?r ! i) = day_text (forecast ! i) \<and>
       (\<forall>d. Date_value e ?v = Some d \<and> \<bar>nth_instant e d i\<bar> \<le> 8640000000000000 \<longrightarrow>
          ?h ! date (?r ! i) = Some (nth_instant e d i) \<and>
          dayName (?r ! i) =
            Some ([''Sun'', ''Mon'', ''Tue'', ''Wed'', ''Thu'', ''Fri'', ''Sat''] !
              nat (WeekDay (LocalTime e (nth_instant e d i)))) \<and>
          (reads_back_same_day e (LocalTime e d + int i * msPerDay) \<longrightarrow>
             Day (LocalTime e (nth_instant e d i)) = Day (LocalTime e d) + int i \<and>
             (calendarDate e d = (2025, 12, 7) \<and> i < 4 \<longrightarrow>
                calendarDate e (nth_instant e d i) = (2025, 12, 7 + int i) \<and>
                dayName (?r ! i) = Some ([''Sun'', ''Mon'', ''Tue'', ''Wed''] ! i))))"
    if i: "i < length forecast" for i
  proof -
    have rec: "?r ! i = day_record e (forecast ! i) (length h + i) (advance_days e (Date_value e ?v) i)"
      using mapDays_nth [OF i, of e ?v 0 h] by simp
    have cell: "?h ! (length h + i) = advance_days e (Date_value e ?v) i"
      using i by (simp add: mapDays_heap nth_append)
    have cond: "condition (?r ! i) = day_text (forecast ! i)"
      using rec by (simp add: day_record_def)
    have stored: "?h ! date (?r ! i) = Some (nth_instant e d i)"
      if "Date_value e ?v = Some d" "\<bar>nth_instant e d i\<bar> \<le> 8640000000000000" for d
      using rec cell that by (simp add: day_record_def advance_days_valid)
    have name: "dayName (?r ! i) =
        Some ([''Sun'', ''Mon'', ''Tue'', ''Wed'', ''Thu'', ''Fri'', ''Sat''] !
          nat (WeekDay (LocalTime e (nth_instant e d i))))"
      if "Date_value e ?v = Some d" "\<bar>nth_instant e d i\<bar> \<le> 8640000000000000" for d
      using rec that by (simp add: day_record_def advance_days_valid getDayName_valid days_def)
    have day: "Day (LocalTime e (nth_instant e d i)) = Day (LocalTime e d) + int i"
      if "reads_back_same_day e (LocalTime e d + int i * msPerDay)" for d
      using that by (simp add: reads_back_same_day_def nth_instant_def Day_advance)
    have december: "calendarDate e (nth_instant e d i) = (2025, 12, 7 + int i) \<and>
        [''Sun'', ''Mon'', ''Tue'', ''Wed'', ''Thu'', ''Fri'', ''Sat''] !
          nat (WeekDay (LocalTime e (nth_instant e d i))) = [''Sun'', ''Mon'', ''Tue'', ''Wed''] ! i"
      if "reads_back_same_day e (LocalTime e d + int i * msPerDay)"
        "calendarDate e d = (2025, 12, 7)" "i < 4" for d
      using december_2025 [OF that(2) that(3) day [OF that(1)]] by (simp add: days_def)
    show ?thesis
      using cond stored name day december by auto
  qed
  from run len each show ?thesis by blast
qed

text \<open>
  The four-day response that starts at 2025-12-07T00:00:00+08:00, on the host eight hours
  ahead of UTC: the dates are 7, 8, 9 and 10 December 2025, named Sun, Mon, Tue and Wed.
\<close>

theorem parseForecast_calendar_witness:
  "raw_items four_day_raw = Some [four_day_item] \<and>
   item_forecast four_day_item = Some [fair_day, showers_day, showers_day, fair_day] \<and>
   item_valid_period four_day_item = Some \<lparr>vp_start = Some ''2025-12-07T00:00:00+08:00''\<rparr> \<and>
   Date_value singapore (Some ''2025-12-07T00:00:00+08:00'') = Some 1765036800000 \<and>
   calendarDate singapore 1765036800000 = (2025, 12, 7) \<and>
   (\<exists>r h'. parseForecast singapore four_day_raw [] = (Inr r, h') \<and> length r = 4 \<and>
      h' ! date (r ! 0) = Some 1765036800000 \<and> dayName (r ! 0) = Some ''Sun'' \<and>
      h' ! date (r ! 1) = Some 1765123200000 \<and> dayName (r ! 1) = Some ''Mon'' \<and>
      h' ! date (r ! 2) = Some 1765209600000 \<and> dayName (r ! 2) = Some ''Tue'' \<and>
      h' ! date (r ! 3) = Some 1765296000000 \<and> dayName (r ! 3) = Some ''Wed'') \<and>
   calendarDate singapore 1765123200000 = (2025, 12, 8) \<and>
   calendarDate singapore 1765209600000 = (2025, 12, 9) \<and>
   calendarDate singapore 1765296000000 = (2025, 12, 10)"
proof -
  let ?days = "[fair_day, showers_day, showers_day, fair_day]"
  let ?vp = "\<lparr>vp_start = Some ''2025-12-07T00:00:00+08:00''\<rparr>"
  let ?t = "1765036800000 :: int"
  have a: "raw_items four_day_raw = Some [four_day_item]"
    by (simp add: four_day_raw_def)
  have b: "item_forecast four_day_item = Some ?days"
    by (simp add: four_day_item_def)
  have c: "item_valid_period four_day_item = Some ?vp"
    by (simp add: four_day_item_def)
  have d: "Date_value singapore (vp_start ?vp) = Some ?t"
    by (simp add: four_day_start)
  have e: "calendarDate singapore ?t = (2025, 12, 7)"
    by (rule four_day_dates)
  have inst: "nth_instant singapore ?t i = ?t + int i * msPerDay" for i
    by (rule nth_instant_fixed_offset [OF sample_hosts_fixed(1)])
  have same: "reads_back_same_day singapore l" for l
    by (rule reads_back_fixed_offset [OF sample_hosts_fixed(1)])
  from parseForecast_calendar [OF a b c, of singapore "[]"]
  obtain r h' where run: "parseForecast singapore four_day_raw [] = (Inr r, h')"
    and len: "length r = length ?days"
    and each: "\<And>i. i < length ?days \<Longrightarrow>
       (\<forall>d. Date_value singapore (vp_start ?vp) = Some d \<and>
            \<bar>nth_instant singapore d i\<bar> \<le> 8640000000000000 \<longrightarrow>
          h' ! date (r ! i) = Some (nth_instant singapore d i) \<and>
          (reads_back_same_day singapore (LocalTime singapore d + int i * msPerDay) \<longrightarrow>
             (calendarDate singapore d = (2025, 12, 7) \<and> i < 4 \<longrightarrow>
                calendarDate singapore (nth_instant singapore d i) = (2025, 12, 7 + int i) \<and>
                dayName (r ! i) = Some ([''Sun'', ''Mon'', ''Tue'', ''Wed''] ! i))))"
    by blast
  have adv: "h' ! date (r ! i) = Some (?t + int i * msPerDay) \<and>
      calendarDate singapore (?t + int i * msPerDay) = (2025, 12, 7 + int i) \<and>
      dayName (r ! i) = Some ([''Sun'', ''Mon'', ''Tue'', ''Wed''] ! i)"
    if "i < 4" for i
  proof -
    have "\<bar>nth_instant singapore ?t i\<bar> \<le> 8640000000000000"
      using that by (simp add: inst msPerDay_def)
    with each [of i] that d e same show ?thesis by (simp add: inst)
  qed
  have e0: "h' ! date (r ! 0) = Some 1765036800000 \<and> dayName (r ! 0) = Some ''Sun''"
    using adv [of 0] by simp
  have e1: "h' ! date (r ! 1) = Some 1765123200000 \<and> dayName (r ! 1) = Some ''Mon'' \<and>
      calendarDate singapore 1765123200000 = (2025, 12, 8)"
    using adv [of 1] by (simp add: msPerDay_def)
  have e2: "h' ! date (r ! 2) = Some 1765209600000 \<and> dayName (r ! 2) = Some ''Tue'' \<and>
      calendarDate singapore 1765209600000 = (2025, 12, 9)"
    using adv [of 2] by (simp add: msPerDay_def)
  have e3: "h' ! date (r ! 3) = Some 1765296000000 \<and> dayName (r ! 3) = Some ''Wed'' \<and>
      calendarDate singapore 1765296000000 = (2025, 12, 10)"
    using adv [of 3] by (simp add: msPerDay_def)
  from len have len4: "length r = 4" by simp
  from run len4 e0 e1 e2 e3
  have "\<exists>r h'. parseForecast singapore four_day_raw [] = (Inr r, h') \<and> length r = 4 \<and>
      h' ! date (r ! 0) = Some 1765036800000 \<and> dayName (r ! 0) = Some ''Sun'' \<and>
      h' ! date (r ! 1) = Some 1765123200000 \<and> dayName (r ! 1) = Some ''Mon'' \<and>
      h' ! date (r ! 2) = Some 1765209600000 \<and> dayName (r ! 2) = Some ''Tue'' \<and>
      h' ! date (r ! 3) = Some 1765296000000 \<and> dayName (r ! 3) = Some ''Wed''"
    by blast
  with a b c four_day_start e e1 e2 e3 show ?thesis by blast
qed

text \<open>
  C3, as stated: \<^verbatim>\<open>high\<close> and \<open>low\<close> are the integer parse of the field when the field
  is present and \<^verbatim>\<open>N/A\<close> otherwise, and \<^verbatim>\<open>wind\<close> is direction and speed when both are
  present and \<^verbatim>\<open>N/A\<close> otherwise. The source tests \<^verbatim>\<open>day.wind\<close> and \<^verbatim>\<open>day.high\<close> for
  truthiness only. A \<^verbatim>\<open>wind\<close> object without \<^verbatim>\<open>direction\<close> gives the text
  \<^verbatim>\<open>undefined 10\<close>, not \<^verbatim>\<open>N/A\<close>, and a \<^verbatim>\<open>high\<close> that is present as the empty string
  gives \<^verbatim>\<open>N/A\<close>, not its integer parse.
\<close>

theorem parseForecast_fields_counterexample:
  "parseForecast singapore gusty_raw [] =
    (Inr [\<lparr>date = 0, dayName = Some ''Sun'', dateStr = ''07/12'', condition = Some ''Windy'',
           high = Str ''N/A'', low = Num 24, emoji = Str emoji_wind, wind = ''undefined 10''\<rparr>],
     [Some 1765065600000])"
  by (simp add: parseForecast_def gusty_raw_def gusty_day_def parseDay_eq day_record_def
      gusty_start advance_days_fixed_offset [OF sample_hosts_fixed(1)] TimeClip_def getDayName_valid formatDate_valid gusty_calendar
      days_def int_toString_def nat_digits.simps digit_char_def padStart_def
      temperature_absent temperature_present sample_numbers number_val_def sample_emoji
      template_str_def)

text \<open>
  C3, amended: \<^verbatim>\<open>high\<close> and \<^verbatim>\<open>low\<close> are the integer parse of the field when the field
  is present and not the empty string, and \<^verbatim>\<open>N/A\<close> otherwise; \<^verbatim>\<open>wind\<close> is \<^verbatim>\<open>N/A\<close> when
  the entry has no \<^verbatim>\<open>wind\<close>, and otherwise the direction, a space and the speed, where a
  sub-field that is missing is written as the text \<^verbatim>\<open>undefined\<close>.
\<close>

theorem parseForecast_fields:
  assumes "raw_items data = Some (item0 # later)"
    and "item_valid_period item0 = Some vp"
    and "item_forecast item0 = Some forecast"
  shows "\<exists>r h'. parseForecast e data h = (Inr r, h') \<and> length r = length forecast \<and>
    (\<forall>i<length forecast.
       high (r ! i) =
         (case day_high (forecast ! i) of
            None \<Rightarrow> Str ''N/A''
          | Some s \<Rightarrow> if s = [] then Str ''N/A'' else number_val (parseInt s)) \<and>
       low (r ! i) =
         (case day_low (forecast ! i) of
            None \<Rightarrow> Str ''N/A''
          | Some s \<Rightarrow> if s = [] then Str ''N/A'' else number_val (parseInt s)) \<and>
       wind (r ! i) =
         (case day_wind (forecast ! i) of
            None \<Rightarrow> ''N/A''
          | Some w \<Rightarrow>
             (case wind_direction w of None \<Rightarrow> ''undefined'' | Some d \<Rightarrow> d) @ '' '' @
             (case wind_speed w of None \<Rightarrow> ''undefined'' | Some s \<Rightarrow> s)))"
proof -
  from parseForecast_records [OF assms, of e h]
  obtain r h' where run: "parseForecast e data h = (Inr r, h')"
    and len: "length r = length forecast"
    and each: "\<And>i. i < length forecast \<Longrightarrow>
       r ! i = day_record e (forecast ! i) (length h + i) (advance_days e (Date_value e (vp_start vp)) i)"
    by blast
  have "high (r ! i) =
         (case day_high (forecast ! i) of
            None \<Rightarrow> Str ''N/A''
          | Some s \<Rightarrow> if s = [] then Str ''N/A'' else number_val (parseInt s)) \<and>
       low (r ! i) =
         (case day_low (forecast ! i) of
            None \<Rightarrow> Str ''N/A''
          | Some s \<Rightarrow> if s = [] then Str ''N/A'' else number_val (parseInt s)) \<and>
       wind (r ! i) =
         (case day_wind (forecast ! i) of
            None \<Rightarrow> ''N/A''
          | Some w \<Rightarrow>
             (case wind_direction w of None \<Rightarrow> ''undefined'' | Some d \<Rightarrow> d) @ '' '' @
             (case wind_speed w of None \<Rightarrow> ''undefined'' | Some s \<Rightarrow> s))"
    if "i < length forecast" for i
    using each [OF that]
    by (simp add: day_record_def temperature_def template_str_def split: option.splits)
  with run len show ?thesis by blast
qed

theorem parseForecast_fields_witness:
  "raw_items four_day_raw = Some [four_day_item] \<and>
   item_valid_period four_day_item = Some \<lparr>vp_start = Some ''2025-12-07T00:00:00+08:00''\<rparr> \<and>
   item_forecast four_day_item = Some [fair_day, showers_day, showers_day, fair_day] \<and>
   (\<exists>r h'. parseForecast singapore four_day_raw [] = (Inr r, h') \<and> length r = 4 \<and>
      high (r ! 0) = Num 32 \<and> low (r ! 0) = Num 25 \<and> wind (r ! 0) = ''NE 15'' \<and>
      high (r ! 1) = Num 31 \<and> low (r ! 1) = Str ''N/A'' \<and> wind (r ! 1) = ''N/A'')"
proof -
  let ?days = "[fair_day, showers_day, showers_day, fair_day]"
  have a: "raw_items four_day_raw = Some [four_day_item]"
    by (simp add: four_day_raw_def)
  have b: "item_valid_period four_day_item = Some \<lparr>vp_start = Some ''2025-12-07T00:00:00+08:00''\<rparr>"
    by (simp add: four_day_item_def)
  have c: "item_forecast four_day_item = Some ?days"
    by (simp add: four_day_item_def)
  from parseForecast_fields [OF a b c, of singapore "[]"]
  obtain r h' where run: "parseForecast singapore four_day_raw [] = (Inr r, h')"
    and len: "length r = length ?days"
    and each: "\<And>i. i < length ?days \<Longrightarrow>
       high (r ! i) =
         (case day_high (?days ! i) of
            None \<Rightarrow> Str ''N/A''
          | Some s \<Rightarrow> if s = [] then Str ''N/A'' else number_val (parseInt s)) \<and>
       low (r ! i) =
         (case day_low (?days ! i) of
            None \<Rightarrow> Str ''N/A''
          | Some s \<Rightarrow> if s = [] then Str ''N/A'' else number_val (parseInt s)) \<and>
       wind (r ! i) =
         (case day_wind (?days ! i) of
            None \<Rightarrow> ''N/A''
          | Some w \<Rightarrow>
             (case wind_direction w of None \<Rightarrow> ''undefined'' | Some d \<Rightarrow> d) @ '' '' @
             (case wind_speed w of None \<Rightarrow> ''undefined'' | Some s \<Rightarrow> s))"
    by blast
  have e0: "high (r ! 0) = Num 32 \<and> low (r ! 0) = Num 25 \<and> wind (r ! 0) = ''NE 15''"
    using each [of 0] by (simp add: fair_day_def sample_numbers number_val_def)
  have e1: "high (r ! 1) = Num 31 \<and> low (r ! 1) = Str ''N/A'' \<and> wind (r ! 1) = ''N/A''"
    using each [of 1] by (simp add: showers_day_def sample_numbers number_val_def)
  from len have "length r = 4" by simp
  with a b c run e0 e1 show ?thesis by blast
qed


text \<open>
  C8. Two responses whose \<^verbatim>\<open>items\<close> agree on the first element, and on being empty, are
  normalised to the same result and leave the same store, whatever the later items are.
\<close>

theorem parseForecast_first_item_only:
  assumes "raw_items d1 = Some items1" and "raw_items d2 = Some items2"
    and "take 1 items1 = take 1 items2"
  shows "parseForecast e d1 h = parseForecast e d2 h"
proof (cases items1)
  case Nil
  with assms show ?thesis by (cases items2) (simp_all add: parseForecast_def)
next
  case (Cons a as)
  with assms show ?thesis by (cases items2) (simp_all add: parseForecast_def)
qed

theorem parseForecast_first_item_only_witness:
  "raw_items four_day_raw = Some [four_day_item] \<and>
   raw_items two_item_raw = Some [four_day_item, one_day_item] \<and>
   take 1 [four_day_item] = take 1 [four_day_item, one_day_item] \<and>
   four_day_raw \<noteq> two_item_raw \<and>
   parseForecast singapore four_day_raw [] = parseForecast singapore two_item_raw []"
proof -
  have a: "raw_items four_day_raw = Some [four_day_item]" by (simp add: four_day_raw_def)
  have b: "raw_items two_item_raw = Some [four_day_item, one_day_item]" by (simp add: two_item_raw_def)
  have c: "take 1 [four_day_item] = take 1 [four_day_item, one_day_item]" by simp
  have d: "four_day_raw \<noteq> two_item_raw" by (simp add: four_day_raw_def two_item_raw_def)
  from parseForecast_first_item_only [OF a b c, of singapore "[]"] a b c d show ?thesis by blast
qed

text \<open>
  C10, as stated: with a first item that lacks \<^verbatim>\<open>valid_period.start\<close> or \<^verbatim>\<open>forecast\<close>,
  \<^verbatim>\<open>parseForecast\<close> raises a type error. It does when \<^verbatim>\<open>valid_period\<close> or \<^verbatim>\<open>forecast\<close>
  is missing. It does not when \<^verbatim>\<open>valid_period\<close> is there and only its \<^verbatim>\<open>start\<close> is
  missing: \<^verbatim>\<open>new Date(undefined)\<close> is an invalid date and nothing is thrown. On the
  response below the call returns a record.
\<close>

theorem missing_start_counterexample:
  "parseForecast singapore no_start_raw [] =
    (Inr [\<lparr>date = 0, dayName = None, dateStr = ''NaN/NaN'', condition = Some ''Fair'',
           high = Num 32, low = Num 25, emoji = Str emoji_sun, wind = ''NE 15''\<rparr>],
     [None])"
  by (simp add: parseForecast_def no_start_raw_def fair_day_def parseDay_eq day_record_def
      Date_value_def advance_days_def getDayName_invalid formatDate_invalid
      temperature_present sample_numbers number_val_def sample_emoji template_str_def)

text \<open>
  C10, amended: with a first item that lacks \<^verbatim>\<open>valid_period\<close> or \<^verbatim>\<open>forecast\<close>,
  \<^verbatim>\<open>parseForecast\<close> throws a \<^verbatim>\<open>TypeError\<close> and allocates nothing. With a first item
  that has both but no \<^verbatim>\<open>start\<close> inside \<^verbatim>\<open>valid_period\<close>, it throws nothing and returns
  one record for each entry, whose date is invalid, whose \<^verbatim>\<open>dayName\<close> is \<^verbatim>\<open>undefined\<close>
  and whose \<^verbatim>\<open>dateStr\<close> is \<^verbatim>\<open>NaN/NaN\<close>.
\<close>

theorem parseForecast_missing_fields:
  assumes "raw_items data = Some (item0 # later)"
  shows "(item_valid_period item0 = None \<or> item_forecast item0 = None \<longrightarrow>
            (\<exists>m. parseForecast e data h = (Inl (TypeError m), h))) \<and>
         (\<forall>vp forecast. item_valid_period item0 = Some vp \<and> vp_start vp = None \<and>
              item_forecast item0 = Some forecast \<longrightarrow>
            (\<exists>r h'. parseForecast e data h = (Inr r, h') \<and> length r = length forecast \<and>
               (\<forall>i<length forecast. h' ! date (r ! i) = None \<and> dayName (r ! i) = None \<and>
                  dateStr (r ! i) = ''NaN/NaN'')))"
proof (intro conjI impI allI)
  assume "item_valid_period item0 = None \<or> item_forecast item0 = None"
  with assms show "\<exists>m. parseForecast e data h = (Inl (TypeError m), h)"
    by (auto simp: parseForecast_def undefined_read_def split: option.splits)
next
  fix vp forecast
  assume a: "item_valid_period item0 = Some vp \<and> vp_start vp = None \<and>
              item_forecast item0 = Some forecast"
  from a have vp: "item_valid_period item0 = Some vp" and fc: "item_forecast item0 = Some forecast"
    and start: "vp_start vp = None"
    by simp_all
  from parseForecast_records [OF assms vp fc, of e h]
  obtain r h' where run: "parseForecast e data h = (Inr r, h')"
    and len: "length r = length forecast"
    and heap: "h' = h @ map (advance_days e (Date_value e (vp_start vp))) [0..<length forecast]"
    and each: "\<And>i. i < length forecast \<Longrightarrow>
       r ! i = day_record e (forecast ! i) (length h + i) (advance_days e (Date_value e (vp_start vp)) i)"
    by blast
  have none: "advance_days e (Date_value e (vp_start vp)) i = None" for i
    using start by (simp add: Date_value_def advance_days_def)
  have "h' ! date (r ! i) = None \<and> dayName (r ! i) = None \<and> dateStr (r ! i) = ''NaN/NaN''"
    if "i < length forecast" for i
    using each [OF that] that heap none
    by (simp add: day_record_def getDayName_invalid formatDate_invalid nth_append)
  with run len
  show "\<exists>r h'. parseForecast e data h = (Inr r, h') \<and> length r = length forecast \<and>
               (\<forall>i<length forecast. h' ! date (r ! i) = None \<and> dayName (r ! i) = None \<and>
                  dateStr (r ! i) = ''NaN/NaN'')"
    by blast
qed

theorem parseForecast_missing_fields_witness:
  "raw_items no_period_raw = Some [\<lparr>item_forecast = Some [fair_day], item_valid_period = None\<rparr>] \<and>
   (\<exists>m. parseForecast singapore no_period_raw [] = (Inl (TypeError m), [])) \<and>
   raw_items no_start_raw =
     Some [\<lparr>item_forecast = Some [fair_day], item_valid_period = Some \<lparr>vp_start = None\<rparr>\<rparr>] \<and>
   (\<exists>r h'. parseForecast singapore no_start_raw [] = (Inr r, h') \<and> length r = 1 \<and>
      h' ! date (r ! 0) = None \<and> dayName (r ! 0) = None \<and> dateStr (r ! 0) = ''NaN/NaN'')"
proof -
  let ?p = "\<lparr>item_forecast = Some [fair_day], item_valid_period = None\<rparr>"
  let ?s = "\<lparr>item_forecast = Some [fair_day], item_valid_period = Some \<lparr>vp_start = None\<rparr>\<rparr>"
  have a: "raw_items no_period_raw = Some [?p]"
    by (simp add: no_period_raw_def)
  have b: "raw_items no_start_raw = Some [?s]"
    by (simp add: no_start_raw_def)
  have 1: "\<exists>m. parseForecast singapore no_period_raw [] = (Inl (TypeError m), [])"
    using parseForecast_missing_fields [OF a, of singapore "[]"] by simp
  have "\<exists>r h'. parseForecast singapore no_start_raw [] = (Inr r, h') \<and> length r = length [fair_day] \<and>
      (\<forall>i<length [fair_day]. h' ! date (r ! i) = None \<and> dayName (r ! i) = None \<and>
         dateStr (r ! i) = ''NaN/NaN'')"
    using parseForecast_missing_fields [OF b, of singapore "[]"] by simp
  then have 2: "\<exists>r h'. parseForecast singapore no_start_raw [] = (Inr r, h') \<and> length r = 1 \<and>
      h' ! date (r ! 0) = None \<and> dayName (r ! 0) = None \<and> dateStr (r ! 0) = ''NaN/NaN''"
    by auto
  from a b 1 2 show ?thesis by blast
qed

text \<open>
  C7. \<^verbatim>\<open>parseForecast\<close> writes to date objects, but only to the ones it has just made:
  after a call every cell that the store had before is as it was. Called a second time
  on the same response, in the store the first call left or in any other store, it
  returns an array that reads the same as the first, and the second call does not change
  what the first array reads. The response is a value that the call only reads, and the
  call has no other output.
\<close>

theorem parseForecast_pure:
  "(case parseForecast e data h of
      (res1, h1) \<Rightarrow>
        (case parseForecast e data h1 of
           (res2, h2) \<Rightarrow>
             (case parseForecast e data g of
                (res3, h3) \<Rightarrow>
                  take (length h) h1 = h \<and>
                  take (length h1) h2 = h1 \<and>
                  result_view h1 res1 = result_view h2 res2 \<and>
                  result_view h2 res1 = result_view h1 res1 \<and>
                  result_view h1 res1 = result_view h3 res3)))"
proof -
  consider (fixed) res where "\<forall>h. parseForecast e data h = (res, h)"
      "res = Inr [] \<or> (\<exists>m. res = Inl (TypeError m))"
    | (mapped) item0 later vp forecast where "raw_items data = Some (item0 # later)"
      "item_valid_period item0 = Some vp" "item_forecast item0 = Some forecast"
    using parseForecast_shape [of e data] by blast
  then show ?thesis
  proof cases
    case fixed
    then show ?thesis by (auto simp: result_view_def)
  next
    case mapped
    let ?v = "map (\<lambda>i. (advance_days e (Date_value e (vp_start vp)) i,
                     day_record e (forecast ! i) 0 (advance_days e (Date_value e (vp_start vp)) i)))
             [0..<length forecast]"
    from parseForecast_view [OF mapped, of e h]
    obtain r1 h1 where run1: "parseForecast e data h = (Inr r1, h1)"
      and frame1: "take (length h) h1 = h"
      and view1: "\<And>h''. take (length h1) h'' = h1 \<Longrightarrow> map (forecast_view h'') r1 = ?v"
      by blast
    from parseForecast_view [OF mapped, of e h1]
    obtain r2 h2 where run2: "parseForecast e data h1 = (Inr r2, h2)"
      and frame2: "take (length h1) h2 = h1"
      and view2: "\<And>h''. take (length h2) h'' = h2 \<Longrightarrow> map (forecast_view h'') r2 = ?v"
      by blast
    from parseForecast_view [OF mapped, of e g]
    obtain r3 h3 where run3: "parseForecast e data g = (Inr r3, h3)"
      and view3: "\<And>h''. take (length h3) h'' = h3 \<Longrightarrow> map (forecast_view h'') r3 = ?v"
      by blast
    have "map (forecast_view h1) r1 = map (forecast_view h2) r2"
      using view1 [of h1] view2 [of h2] by simp
    then have same: "result_view h1 (Inr r1) = result_view h2 (Inr r2)"
      unfolding result_view_def by simp
    have "map (forecast_view h2) r1 = map (forecast_view h1) r1"
      using view1 [of h1] view1 [OF frame2] by simp
    then have kept: "result_view h2 (Inr r1) = result_view h1 (Inr r1)"
      unfolding result_view_def by simp
    have "map (forecast_view h1) r1 = map (forecast_view h3) r3"
      using view1 [of h1] view3 [of h3] by simp
    then have other: "result_view h1 (Inr r1) = result_view h3 (Inr r3)"
      unfolding result_view_def by simp
    from run1 run2 run3 frame1 frame2 same kept other show ?thesis
      by simp
  qed
qed

subsection \<open>The runs of \<^verbatim>\<open>initWeather\<close>\<close>

lemma calls_simps:
  "calls p [] = 0"
  "calls p (x # xs) = (if p x then Suc (calls p xs) else calls p xs)"
  "calls p (xs @ ys) = calls p xs + calls p ys"
  by (simp_all add: calls_def)

text \<open>
  Every run ends in one of two ways: the writes of the \<^verbatim>\<open>catch\<close> block after at most one
  console message of \<^verbatim>\<open>fetch4DayForecast\<close>, or the two writes of the success path with a
  forecast that is not empty.
\<close>

lemma initWeather_log:
  "(\<exists>pre err. fst (initWeather e outcome h) =
       pre @ [ConsoleError ''Weather initialization error:'' err,
              SetLoadingDisplay ''none'',
              SetErrorDisplay ''block'',
              SetErrorText (''Unable to load weather forecast: '' @ message err @
                ''. This is a real-time API call - ensure CORS is enabled or use a proxy server.'')] \<and>
       (pre = [] \<or> pre = [ConsoleError ''Weather API Error:'' err])) \<or>
   (\<exists>forecast. forecast \<noteq> [] \<and>
       fst (initWeather e outcome h) = [SetLoadingDisplay ''none'', SetForecastHTML forecast])"
  by (auto simp: initWeather_def initWeather_try_def fetch4DayForecast_def
      split: prod.splits sum.splits)

text \<open>
  C1, as stated: a response with \<^verbatim>\<open>items: []\<close> is normalised to the empty array and the
  flow then renders it instead of reporting an error. The first half holds; the second
  does not, because \<^verbatim>\<open>initWeather\<close> throws \<^verbatim>\<open>No forecast data available\<close> when the array
  is empty. On the response below the run ends in the error display and renders nothing.
\<close>

theorem empty_forecast_counterexample:
  "fst (parseForecast singapore \<lparr>raw_items = Some []\<rparr> []) = Inr [] \<and>
   errored (fst (initWeather singapore
     (Responded \<lparr>status = 200, body = Json \<lparr>raw_items = Some []\<rparr>\<rparr>) [])) \<and>
   \<not> rendered (fst (initWeather singapore
     (Responded \<lparr>status = 200, body = Json \<lparr>raw_items = Some []\<rparr>\<rparr>) []))"
  by (simp add: parseForecast_def initWeather_def initWeather_try_def fetch4DayForecast_def
      fetch4DayForecast_try_def ok_def errored_def rendered_def calls_simps)

text \<open>
  C1, amended: for a successful response whose \<^verbatim>\<open>items\<close> is empty, \<^verbatim>\<open>parseForecast\<close>
  returns the empty array and allocates nothing, and \<^verbatim>\<open>initWeather\<close> then dismisses the
  loading indicator and shows the error view with the message
  \<^verbatim>\<open>No forecast data available\<close>; the renderer is not called.
\<close>

theorem empty_forecast_is_reported:
  assumes "raw_items data = Some []" and "ok r" and "body r = Json data"
  shows "parseForecast e data h = (Inr [], h) \<and>
    initWeather e (Responded r) h =
      ([ConsoleError ''Weather initialization error:'' (Error ''No forecast data available''),
        SetLoadingDisplay ''none'',
        SetErrorDisplay ''block'',
        SetErrorText ''Unable to load weather forecast: No forecast data available. This is a real-time API call - ensure CORS is enabled or use a proxy server.''],
       h) \<and>
    errored (fst (initWeather e (Responded r) h)) \<and>
    \<not> rendered (fst (initWeather e (Responded r) h))"
  using assms
  by (simp add: parseForecast_no_items initWeather_def initWeather_try_def fetch4DayForecast_def
      fetch4DayForecast_try_def errored_def rendered_def calls_simps)

theorem empty_forecast_is_reported_witness:
  "raw_items \<lparr>raw_items = Some []\<rparr> = Some [] \<and>
   ok \<lparr>status = 200, body = Json \<lparr>raw_items = Some []\<rparr>\<rparr> \<and>
   body \<lparr>status = 200, body = Json \<lparr>raw_items = Some []\<rparr>\<rparr> = Json \<lparr>raw_items = Some []\<rparr> \<and>
   parseForecast singapore \<lparr>raw_items = Some []\<rparr> [] = (Inr [], []) \<and>
   errored (fst (initWeather singapore
     (Responded \<lparr>status = 200, body = Json \<lparr>raw_items = Some []\<rparr>\<rparr>) []))"
proof -
  let ?data = "\<lparr>raw_items = Some []\<rparr>"
  let ?r = "\<lparr>status = 200, body = Json ?data\<rparr>"
  have a: "raw_items ?data = Some []" by simp
  have b: "ok ?r" by (simp add: ok_def)
  have c: "body ?r = Json ?data" by simp
  from empty_forecast_is_reported [OF a b c, of "singapore" "[]"] a b c
  show ?thesis by blast
qed

text \<open>
  C5. When the fetch fails, by a rejected request or by a response whose status is
  outside 200 to 299, \<^verbatim>\<open>initWeather\<close> writes the error message exactly once and never
  assigns the forecast markup. When the fetch succeeds and \<^verbatim>\<open>parseForecast\<close> returns a
  forecast that is not empty, it assigns the forecast markup exactly once and never writes
  the error message.
\<close>

theorem initWeather_sinks:
  "((outcome = Rejected err \<or> (outcome = Responded r \<and> \<not> ok r)) \<longrightarrow>
      errored (fst (initWeather e outcome h))) \<and>
   (outcome = Responded r \<and> ok r \<and> body r = Json data \<and>
    fst (parseForecast e data h) = Inr forecast \<and> forecast \<noteq> [] \<longrightarrow>
      rendered (fst (initWeather e outcome h)))"
  by (auto simp: initWeather_def initWeather_try_def fetch4DayForecast_def
      fetch4DayForecast_try_def errored_def rendered_def calls_simps split: prod.splits sum.splits)

theorem initWeather_sinks_witness:
  "errored (fst (initWeather singapore (Rejected (TypeError ''Failed to fetch'')) [])) \<and>
   \<not> ok \<lparr>status = 500, body = InvalidJson ''Unexpected token''\<rparr> \<and>
   errored (fst (initWeather singapore
     (Responded \<lparr>status = 500, body = InvalidJson ''Unexpected token''\<rparr>) [])) \<and>
   ok \<lparr>status = 200, body = Json one_day_raw\<rparr> \<and>
   fst (parseForecast singapore one_day_raw []) \<noteq> Inr [] \<and>
   rendered (fst (initWeather singapore (Responded \<lparr>status = 200, body = Json one_day_raw\<rparr>) []))"
proof -
  let ?bad = "\<lparr>status = 500, body = InvalidJson ''Unexpected token''\<rparr>"
  let ?good = "\<lparr>status = 200, body = Json one_day_raw\<rparr>"
  let ?r = "[\<lparr>date = 0, dayName = Some ''Sun'', dateStr = ''05/01'', condition = Some ''Fair'',
           high = Num 32, low = Num 25, emoji = Str emoji_sun, wind = ''NE 15''\<rparr>]"
  have bad: "\<not> ok ?bad" by (simp add: ok_def)
  have good: "ok ?good" by (simp add: ok_def)
  have run: "fst (parseForecast singapore one_day_raw []) = Inr ?r"
    by (simp add: one_day_run)
  have 1: "errored (fst (initWeather singapore (Rejected (TypeError ''Failed to fetch'')) []))"
    using initWeather_sinks [where outcome = "Rejected (TypeError ''Failed to fetch'')"
        and err = "TypeError ''Failed to fetch''" and e = singapore and h = "[]"]
    by simp
  have 2: "errored (fst (initWeather singapore (Responded ?bad) []))"
    using initWeather_sinks [where outcome = "Responded ?bad" and r = ?bad and e = singapore
        and h = "[]"] bad
    by simp
  have 3: "rendered (fst (initWeather singapore (Responded ?good) []))"
    using initWeather_sinks [where outcome = "Responded ?good" and r = ?good and e = singapore
        and h = "[]" and data = one_day_raw and forecast = ?r] good run
    by simp
  from 1 2 3 bad good run show ?thesis by simp
qed

text \<open>
  C6. In every run of \<^verbatim>\<open>initWeather\<close>, whatever the network and the response do, the
  loading indicator is set to \<^verbatim>\<open>none\<close> exactly once and is hidden at the end, and exactly
  one of the two outcomes happens: the forecast is rendered or the error is displayed.
  On a page that starts with neither view visible, exactly one of them is visible at the
  end.
\<close>

theorem initWeather_loading:
  "calls is_loading_dismissal (fst (initWeather e outcome h)) = 1 \<and>
   \<not> loading_shown (run_effects d (fst (initWeather e outcome h))) \<and>
   (rendered (fst (initWeather e outcome h)) \<noteq> errored (fst (initWeather e outcome h))) \<and>
   (\<not> forecast_view_visible d \<and> \<not> error_view_visible d \<longrightarrow>
      forecast_view_visible (run_effects d (fst (initWeather e outcome h))) \<noteq>
      error_view_visible (run_effects d (fst (initWeather e outcome h))))"
  using initWeather_log [of e outcome h]
  by (auto simp: calls_simps run_effects_def loading_shown_def rendered_def errored_def
      forecast_view_visible_def error_view_visible_def)

theorem initWeather_loading_witness:
  "\<not> forecast_view_visible initial_dom \<and> \<not> error_view_visible initial_dom \<and>
   loading_shown initial_dom \<and>
   calls is_loading_dismissal
     (fst (initWeather singapore (Responded \<lparr>status = 200, body = Json one_day_raw\<rparr>) [])) = 1 \<and>
   \<not> loading_shown (run_effects initial_dom
     (fst (initWeather singapore (Responded \<lparr>status = 200, body = Json one_day_raw\<rparr>) []))) \<and>
   forecast_view_visible (run_effects initial_dom
     (fst (initWeather singapore (Responded \<lparr>status = 200, body = Json one_day_raw\<rparr>) []))) \<noteq>
   error_view_visible (run_effects initial_dom
     (fst (initWeather singapore (Responded \<lparr>status = 200, body = Json one_day_raw\<rparr>) [])))"
proof -
  have a: "\<not> forecast_view_visible initial_dom" "\<not> error_view_visible initial_dom"
    "loading_shown initial_dom"
    by (simp_all add: forecast_view_visible_def error_view_visible_def loading_shown_def initial_dom_def)
  from initWeather_loading [of singapore "Responded \<lparr>status = 200, body = Json one_day_raw\<rparr>" "[]" initial_dom] a
  show ?thesis by blast
qed

end
